theory Spec2Isabelle
  imports Complex_Main "HOL-Library.Log_Nat"
begin

section \<open>The checkout and reconciliation handlers of backend/controllers/payment.js\<close>

text \<open>
  The controller has two request handlers, \<open>createCheckoutSession\<close> and
  \<open>checkoutSuccess\<close>, and two helpers, \<open>createStripeCoupon\<close> and
  \<open>createNewCoupon\<close>. They talk to three collaborators: the payment gateway
  (the \<open>stripe\<close> client), the coupon collection and the order collection.

  Conventions of the embedding:
  \<^item> a JavaScript number is the rational it stands for (\<open>rat\<close>), or an \<open>int\<close>
    where the code only ever holds an integer; NaN is not represented;
  \<^item> the product \<open>product.price * 100\<close> of line 30, which is rounded to an integer
    right away, is the product of IEEE 754 doubles, with its rounding and its overflow;
  \<^item> a property that may be absent (\<open>undefined\<close>) is an \<open>option\<close>;
  \<^item> an exception is a value: the handlers' \<open>try/catch\<close> turns a thrown error
    with message \<open>m\<close> into the 500 response carrying \<open>m\<close>, and what was written
    before the throw stays written;
  \<^item> a handler that returns without sending a response yields \<open>None\<close>;
  \<^item> the document collections are lists in insertion order, and a new document
    takes its \<open>_id\<close> from a counter.
\<close>

subsection \<open>Request data\<close>

text \<open>
  One element of \<open>req.body.products\<close>. The handler reads \<open>_id\<close>,
  \<open>name\<close>, \<open>image\<close>, \<open>price\<close> and
  \<open>quantity\<close>; the field \<open>id\<close> is carried to show that it is
  never read. \<open>p_price\<close> is the number that the request body gives as the
  price.
\<close>

record product =
  p__id :: "string option"
  p_id :: "string option"
  p_name :: string
  p_image :: string
  p_price :: rat
  p_quantity :: "int option"

text \<open>
  \<open>req.body.products\<close>: an array, or anything else
  (\<open>Array.isArray\<close> is false).
\<close>

datatype products_field = NotArray | ProductArray "product list"

record checkout_request =
  body_products :: products_field
  body_couponCode :: "string option"
  user__id :: string

subsection \<open>JSON texts\<close>

text \<open>
  \<open>metadata.products\<close> is a string written by \<open>JSON.stringify\<close>
  and read back by \<open>JSON.parse\<close>. A JSON text is represented by the value it
  denotes: the text of an array of snapshot objects, or a string on which
  \<open>JSON.parse\<close> (or the \<open>.map\<close> that follows it) throws, with
  the message of the error. \<open>JSON.stringify\<close> leaves out a property whose
  value is \<open>undefined\<close>, and reading a property that is absent gives
  \<open>undefined\<close>: both are \<open>None\<close>.
\<close>

record snapshot_item =
  s_id :: "string option"
  s_quantity :: "int option"
  s_price :: "rat option"

datatype json_text = JsonArray "snapshot_item list" | Unparseable string

definition JSON_stringify :: "snapshot_item list \<Rightarrow> json_text" where
  "JSON_stringify xs = JsonArray xs"

definition JSON_parse :: "json_text \<Rightarrow> string + snapshot_item list" where
  "JSON_parse t = (case t of JsonArray xs \<Rightarrow> Inr xs | Unparseable m \<Rightarrow> Inl m)"

subsection \<open>Double-precision numbers\<close>

text \<open>
  A number of the handler is an IEEE 754 binary64 value: a rational of the form
  \<open>m * 2 ^ (e - 52)\<close> with \<open>\<bar>m\<bar> < 2 ^ 53\<close> and
  \<open>-1022 \<le> e \<le> 1023\<close>, or an infinity. Negative zero is not told apart from
  zero: \<open>JSON.stringify\<close> prints both as \<open>0\<close>.
\<close>

datatype js_number = Finite rat | PosInfinity | NegInfinity

text \<open>For \<open>0 < x\<close>, the exponent \<open>e\<close> with \<open>2 ^ e \<le> x < 2 ^ (e + 1)\<close>.\<close>

definition floor_log2 :: "rat \<Rightarrow> int" where
  "floor_log2 x =
     (let (p, q) = quotient_of x;
          k = bitlen p - bitlen q
      in if 2 powi k \<le> x then k else k - 1)"

text \<open>The nearest integer, a tie going to the even one.\<close>

definition round_half_even :: "rat \<Rightarrow> int" where
  "round_half_even r =
     (let f = \<lfloor>r\<rfloor>; d = r - of_int f
      in if d < 1 / 2 then f
         else if 1 / 2 < d then f + 1
         else if even f then f else f + 1)"

text \<open>
  Rounding a real number to the nearest double, ties to even: for \<open>0 < x\<close> the
  doubles around \<open>x\<close> are the multiples of \<open>2 ^ (e - 52)\<close>, where \<open>e\<close> is
  the exponent of \<open>x\<close>, or \<open>-1022\<close> in the subnormal range; a result of
  \<open>2 ^ 1024\<close> or more is infinite.
\<close>

definition fl64_pos :: "rat \<Rightarrow> js_number" where
  "fl64_pos x =
     (let e = max (floor_log2 x) (- 1022);
          q = 2 powi (e - 52);
          y = of_int (round_half_even (x / q)) * q
      in if 2 powi 1024 \<le> y then PosInfinity else Finite y)"

definition fl64 :: "rat \<Rightarrow> js_number" where
  "fl64 x =
     (if x = 0 then Finite 0
      else if 0 < x then fl64_pos x
      else (case fl64_pos (- x) of Finite y \<Rightarrow> Finite (- y) | _ \<Rightarrow> NegInfinity))"

text \<open>
  \<open>x * 100\<close> on doubles: the exact product, rounded to the nearest double.
\<close>

definition times100 :: "js_number \<Rightarrow> js_number" where
  "times100 a =
     (case a of
        Finite x \<Rightarrow> fl64 (x * 100)
      | PosInfinity \<Rightarrow> PosInfinity
      | NegInfinity \<Rightarrow> NegInfinity)"

subsection \<open>The payment gateway\<close>

record product_data =
  pd_name :: string
  pd_images :: "string list"

record price_data =
  currency :: string
  product_data :: product_data
  unit_amount :: js_number

record line_item =
  price_data :: price_data
  li_quantity :: int

record metadata =
  m_userId :: string
  m_couponCode :: string
  m_products :: json_text

record session_params =
  payment_method_types :: "string list"
  line_items :: "line_item list"
  mode :: string
  success_url :: string
  cancel_url :: string
  discounts :: "string list"
  sp_metadata :: metadata

text \<open>
  What \<open>stripe.checkout.sessions.retrieve\<close> returns, as far as the handler
  reads it.
\<close>

record session =
  payment_status :: string
  amount_total :: int
  session_metadata :: metadata

text \<open>The calls made on the \<open>stripe\<close> client, in order.\<close>

datatype stripe_call =
    CouponsCreate rat string
  | SessionsCreate session_params
  | SessionsRetrieve string

subsection \<open>The document store\<close>

record coupon =
  c__id :: nat
  code :: string
  discountPercentage :: rat
  expirationDate :: int
  isActive :: bool
  userId :: string

record order_item =
  oi_product :: "string option"
  oi_quantity :: "int option"
  oi_price :: "rat option"

record order =
  o__id :: nat
  o_user :: string
  o_products :: "order_item list"
  o_totalAmount :: rat
  stripeSessionId :: string

record world =
  coupons :: "coupon list"
  orders :: "order list"
  next_id :: nat
  stripe_calls :: "stripe_call list"

subsection \<open>The environment of a request\<close>

text \<open>
  The gateway's answers (\<open>Inl\<close> is the message of the error it throws),
  \<open>process.env.CLIENT_URL\<close>, \<open>Date.now()\<close> in milliseconds, and
  the digits after the point in \<open>Math.random().toString(36)\<close> (none when the
  text is \<open>"0"\<close>). \<open>isActive_default\<close> is the value that the
  coupon schema of models/cupon.js, which is not among the sources, gives
  \<open>isActive\<close> when the constructor leaves it out.
\<close>

record env =
  stripe_coupons_create :: "rat \<Rightarrow> string + string"
  stripe_sessions_create :: "session_params \<Rightarrow> string + string"
  stripe_sessions_retrieve :: "string \<Rightarrow> string + session"
  CLIENT_URL :: string
  Date_now :: int
  Math_random_digits :: "nat list"
  isActive_default :: bool

subsection \<open>Responses\<close>

datatype body =
    ErrorBody string
  | FailureBody string string
  | CheckoutBody string rat
  | SuccessBody bool string nat

record response =
  status :: nat
  json :: body

subsection \<open>JavaScript built-ins\<close>

text \<open>\<open>Math.round\<close> rounds to the nearest integer, halves towards plus infinity.\<close>

definition Math_round :: "rat \<Rightarrow> int" where
  "Math_round x = \<lfloor>x + 1 / 2\<rfloor>"

text \<open>\<open>Math.round\<close> on a double that may be infinite: an infinity stays.\<close>

definition Math_round_double :: "js_number \<Rightarrow> js_number" where
  "Math_round_double a =
     (case a of
        Finite x \<Rightarrow> Finite (of_int (Math_round x))
      | PosInfinity \<Rightarrow> PosInfinity
      | NegInfinity \<Rightarrow> NegInfinity)"

text \<open>A string is truthy when it is defined and not empty.\<close>

definition truthy :: "string option \<Rightarrow> bool" where
  "truthy s = (case s of None \<Rightarrow> False | Some t \<Rightarrow> t \<noteq> [])"

text \<open>
  \<open>q || 1\<close> on a number that may be absent: \<open>undefined\<close> and
  \<open>0\<close> are falsy.
\<close>

definition or_one :: "int option \<Rightarrow> int" where
  "or_one q = (case q of None \<Rightarrow> 1 | Some n \<Rightarrow> if n = 0 then 1 else n)"

definition digit36 :: "nat \<Rightarrow> char" where
  "digit36 d = ''0123456789abcdefghijklmnopqrstuvwxyz'' ! (d mod 36)"

text \<open>
  \<open>x.toString(36)\<close> for \<open>0 \<le> x < 1\<close> with the fractional
  digits \<open>ds\<close>.
\<close>

definition toString36 :: "nat list \<Rightarrow> string" where
  "toString36 ds = (if ds = [] then ''0'' else ''0.'' @ map digit36 ds)"

definition substring :: "nat \<Rightarrow> nat \<Rightarrow> string \<Rightarrow> string" where
  "substring a b s = take (max a b - min a b) (drop (min a b) s)"

definition upper_char :: "char \<Rightarrow> char" where
  "upper_char c =
     (if 97 \<le> (of_char c :: nat) \<and> (of_char c :: nat) \<le> 122
      then char_of ((of_char c :: nat) - 32) else c)"

definition toUpperCase :: "string \<Rightarrow> string" where
  "toUpperCase s = map upper_char s"

subsection \<open>Collection operations\<close>

fun updateFirst :: "('a \<Rightarrow> bool) \<Rightarrow> ('a \<Rightarrow> 'a) \<Rightarrow> 'a list \<Rightarrow> 'a list" where
  "updateFirst P f [] = []"
| "updateFirst P f (x # xs) = (if P x then f x # xs else x # updateFirst P f xs)"

fun deleteFirst :: "('a \<Rightarrow> bool) \<Rightarrow> 'a list \<Rightarrow> 'a list" where
  "deleteFirst P [] = []"
| "deleteFirst P (x # xs) = (if P x then xs else x # deleteFirst P xs)"

text \<open>\<open>Coupon.findOne({code, userId, isActive: true})\<close>\<close>

definition Coupon_findOne :: "string \<Rightarrow> string \<Rightarrow> world \<Rightarrow> coupon option" where
  "Coupon_findOne cd u w =
     find (\<lambda>c. code c = cd \<and> userId c = u \<and> isActive c) (coupons w)"

text \<open>\<open>Coupon.findOneAndUpdate({code, userId}, {isActive: false})\<close>\<close>

definition Coupon_findOneAndUpdate :: "string \<Rightarrow> string \<Rightarrow> world \<Rightarrow> world" where
  "Coupon_findOneAndUpdate cd u w =
     w\<lparr>coupons := updateFirst (\<lambda>c. code c = cd \<and> userId c = u)
                     (\<lambda>c. c\<lparr>isActive := False\<rparr>) (coupons w)\<rparr>"

text \<open>\<open>Coupon.findOneAndDelete({userId})\<close>\<close>

definition Coupon_findOneAndDelete :: "string \<Rightarrow> world \<Rightarrow> world" where
  "Coupon_findOneAndDelete u w =
     w\<lparr>coupons := deleteFirst (\<lambda>c. userId c = u) (coupons w)\<rparr>"

text \<open>
  Modelled from the spec: the coupon schema, models/cupon.js, is not among the sources.
  As in the data model of the specification, \<open>save\<close> on a new coupon inserts
  the document and rejects nothing.
\<close>

definition Coupon_save :: "coupon \<Rightarrow> world \<Rightarrow> world" where
  "Coupon_save c w = w\<lparr>coupons := coupons w @ [c]\<rparr>"

text \<open>
  Modelled from the spec: the order schema, models/order.js, is not among the sources.
  As in the data model of the specification, \<open>save\<close> on a new order inserts
  the document and rejects nothing; in particular the session id is not checked for
  uniqueness (the specification calls this an invariant that is not enforced).
\<close>

definition Order_save :: "order \<Rightarrow> world \<Rightarrow> world" where
  "Order_save ord w = w\<lparr>orders := orders w @ [ord]\<rparr>"

subsection \<open>The helpers\<close>

definition createStripeCoupon :: "env \<Rightarrow> rat \<Rightarrow> world \<Rightarrow> world \<times> (string + string)" where
  "createStripeCoupon e pct w =
     (w\<lparr>stripe_calls := stripe_calls w @ [CouponsCreate pct ''once'']\<rparr>,
      stripe_coupons_create e pct)"

definition createNewCoupon :: "env \<Rightarrow> string \<Rightarrow> world \<Rightarrow> world \<times> coupon" where
  "createNewCoupon e u w =
     (let w1 = Coupon_findOneAndDelete u w;
          newCoupon = \<lparr>c__id = next_id w1,
                       code = ''GIFT'' @
                         toUpperCase (substring 2 8 (toString36 (Math_random_digits e))),
                       discountPercentage = 10,
                       expirationDate = Date_now e + 30 * 24 * 60 * 60 * 1000,
                       isActive = isActive_default e,
                       userId = u\<rparr>;
          w2 = Coupon_save newCoupon (w1\<lparr>next_id := Suc (next_id w1)\<rparr>)
      in (w2, newCoupon))"

subsection \<open>createCheckoutSession\<close>

text \<open>
  Lines 29 to 43: one gateway line item for each product. \<open>product.price\<close> is
  the double that the body parser made of the price in the request, \<open>fl64 (p_price
  p)\<close>; for a price that is a double already this is the price itself.
\<close>

definition lineItems :: "product list \<Rightarrow> line_item list" where
  "lineItems ps =
     map (\<lambda>p. let amount = Math_round_double (times100 (fl64 (p_price p))) in
            \<lparr>price_data =
               \<lparr>currency = ''inr'',
                product_data = \<lparr>pd_name = p_name p, pd_images = [p_image p]\<rparr>,
                unit_amount = amount\<rparr>,
             li_quantity = or_one (p_quantity p)\<rparr>) ps"

text \<open>Lines 45 to 51: the coupon of the request, looked up only for a truthy code.\<close>

definition requestCoupon :: "checkout_request \<Rightarrow> world \<Rightarrow> coupon option" where
  "requestCoupon req w =
     (if truthy (body_couponCode req)
      then Coupon_findOne (the (body_couponCode req)) (user__id req) w
      else None)"

text \<open>Lines 75 to 81: the snapshot that goes into the metadata.\<close>

definition snapshot :: "product list \<Rightarrow> snapshot_item list" where
  "snapshot ps =
     map (\<lambda>p. \<lparr>s_id = p__id p, s_quantity = p_quantity p, s_price = Some (p_price p)\<rparr>) ps"

text \<open>Lines 52 to 56: \<open>totalAmount -= Math.round((totalAmount * pct) / 100)\<close>
  when a coupon was found.\<close>

definition applyDiscount :: "int \<Rightarrow> coupon option \<Rightarrow> int" where
  "applyDiscount totalAmount c =
     (case c of
        None \<Rightarrow> totalAmount
      | Some cp \<Rightarrow>
          totalAmount - Math_round ((of_int totalAmount * discountPercentage cp) / 100))"

text \<open>Lines 85 to 87: the reward check.\<close>

definition rewardCheck :: "env \<Rightarrow> int \<Rightarrow> string \<Rightarrow> world \<Rightarrow> world" where
  "rewardCheck e totalAmount u w =
     (if 20000 \<le> totalAmount then fst (createNewCoupon e u w) else w)"

definition sessionParams ::
  "env \<Rightarrow> checkout_request \<Rightarrow> product list \<Rightarrow> string list \<Rightarrow> session_params" where
  "sessionParams e req ps ds =
     \<lparr>payment_method_types = [''card''],
      line_items = lineItems ps,
      mode = ''payment'',
      success_url = CLIENT_URL e @ ''/purchase-success?session_id={CHECKOUT_SESSION_ID}'',
      cancel_url = CLIENT_URL e @ ''/purchase-cancel'',
      discounts = ds,
      sp_metadata =
        \<lparr>m_userId = user__id req,
         m_couponCode = (if truthy (body_couponCode req) then the (body_couponCode req) else []),
         m_products = JSON_stringify (snapshot ps)\<rparr>\<rparr>"

definition checkoutFailure :: "string \<Rightarrow> response" where
  "checkoutFailure m = \<lparr>status = 500, json = FailureBody ''Error processing checkout'' m\<rparr>"

text \<open>The \<open>discounts\<close> argument of the session request: empty without a coupon,
  else the id of a gateway coupon made by \<open>createStripeCoupon\<close>.\<close>

definition discountsFor :: "env \<Rightarrow> coupon option \<Rightarrow> world \<Rightarrow> world \<times> (string + string list)" where
  "discountsFor e cpn w =
     (case cpn of
        None \<Rightarrow> (w, Inr [])
      | Some cp \<Rightarrow>
          (let (w', r) = createStripeCoupon e (discountPercentage cp) w
           in (w', (case r of Inl m \<Rightarrow> Inl m | Inr cid \<Rightarrow> Inr [cid]))))"

definition createCheckoutSession ::
  "env \<Rightarrow> checkout_request \<Rightarrow> world \<Rightarrow> world \<times> response" where
  "createCheckoutSession e req w =
     (case body_products req of
        NotArray \<Rightarrow>
          (w, \<lparr>status = 400, json = ErrorBody ''Invalid or empty products array''\<rparr>)
      | ProductArray ps \<Rightarrow>
          (if ps = [] then
             (w, \<lparr>status = 400, json = ErrorBody ''Invalid or empty products array''\<rparr>)
           else
             (let totalAmount0 = 0;
                  cpn = requestCoupon req w;
                  totalAmount = applyDiscount totalAmount0 cpn;
                  (w1, ds) = discountsFor e cpn w
              in (case ds of
                    Inl m \<Rightarrow> (w1, checkoutFailure m)
                  | Inr dl \<Rightarrow>
                      (let params = sessionParams e req ps dl;
                           w2 = w1\<lparr>stripe_calls := stripe_calls w1 @ [SessionsCreate params]\<rparr>
                       in (case stripe_sessions_create e params of
                             Inl m \<Rightarrow> (w2, checkoutFailure m)
                           | Inr sid \<Rightarrow>
                               (rewardCheck e totalAmount (user__id req) w2,
                                \<lparr>status = 200,
                                 json = CheckoutBody sid (of_int totalAmount / 100)\<rparr>)))))))"

subsection \<open>checkoutSuccess\<close>

definition successFailure :: "string \<Rightarrow> response" where
  "successFailure m =
     \<lparr>status = 500, json = FailureBody ''Error processing successful checkout'' m\<rparr>"

definition newOrder :: "string \<Rightarrow> session \<Rightarrow> snapshot_item list \<Rightarrow> world \<Rightarrow> order" where
  "newOrder sessionId s products w =
     \<lparr>o__id = next_id w,
      o_user = m_userId (session_metadata s),
      o_products = map (\<lambda>p. \<lparr>oi_product = s_id p, oi_quantity = s_quantity p,
                               oi_price = s_price p\<rparr>) products,
      o_totalAmount = of_int (amount_total s) / 100,
      stripeSessionId = sessionId\<rparr>"

definition checkoutSuccess :: "env \<Rightarrow> string \<Rightarrow> world \<Rightarrow> world \<times> response option" where
  "checkoutSuccess e sessionId w =
     (let w1 = w\<lparr>stripe_calls := stripe_calls w @ [SessionsRetrieve sessionId]\<rparr>
      in (case stripe_sessions_retrieve e sessionId of
            Inl m \<Rightarrow> (w1, Some (successFailure m))
          | Inr s \<Rightarrow>
              (if payment_status s = ''paid'' then
                 (let w2 = (if m_couponCode (session_metadata s) \<noteq> []
                            then Coupon_findOneAndUpdate (m_couponCode (session_metadata s))
                                   (m_userId (session_metadata s)) w1
                            else w1)
                  in (case JSON_parse (m_products (session_metadata s)) of
                        Inl m \<Rightarrow> (w2, Some (successFailure m))
                      | Inr products \<Rightarrow>
                          (let ord = newOrder sessionId s products w2;
                               w3 = Order_save ord (w2\<lparr>next_id := Suc (next_id w2)\<rparr>)
                           in (w3, Some \<lparr>status = 200,
                                         json = SuccessBody True
                                           ''Payment successful, order created, and coupon deactivated if used.''
                                           (o__id ord)\<rparr>))))
               else (w1, None))))"

subsection \<open>The alphabet of reward codes\<close>

text \<open>The digits of base 36 in upper case.\<close>

definition base36_upper :: string where
  "base36_upper = ''0123456789ABCDEFGHIJKLMNOPQRSTUVWXYZ''"

subsection \<open>Example data\<close>

text \<open>
  The end-to-end example of the specification: one product at 50.00 with quantity 2, a
  gateway session reporting \<open>amount_total = 10000\<close> and \<open>paid\<close>,
  and a ledger with one active coupon of the buyer.
\<close>

definition example_product :: product where
  "example_product =
     \<lparr>p__id = Some ''p1'', p_id = None, p_name = ''Shoes'', p_image = ''shoes.png'',
      p_price = 50, p_quantity = Some 2\<rparr>"

definition example_metadata :: metadata where
  "example_metadata =
     \<lparr>m_userId = ''u1'', m_couponCode = ''GIFTABC123'',
      m_products = JsonArray [\<lparr>s_id = Some ''p1'', s_quantity = Some 2, s_price = Some 50\<rparr>]\<rparr>"

definition example_session :: session where
  "example_session =
     \<lparr>payment_status = ''paid'', amount_total = 10000, session_metadata = example_metadata\<rparr>"

definition example_env :: env where
  "example_env =
     \<lparr>stripe_coupons_create = (\<lambda>pct. Inr ''co_1''),
      stripe_sessions_create = (\<lambda>params. Inr ''cs_1''),
      stripe_sessions_retrieve =
        (\<lambda>sid. if sid = ''cs_1'' then Inr example_session
               else if sid = ''cs_2'' then Inr (example_session\<lparr>payment_status := ''unpaid''\<rparr>)
               else Inl ''No such checkout.session''),
      CLIENT_URL = ''http://localhost:5173'',
      Date_now = 1700000000000,
      Math_random_digits = [10, 3, 35, 0, 18, 7, 22, 9, 1, 30],
      isActive_default = True\<rparr>"

definition example_coupon :: coupon where
  "example_coupon =
     \<lparr>c__id = 0, code = ''GIFTABC123'', discountPercentage = 10,
      expirationDate = 1700000500000, isActive = True, userId = ''u1''\<rparr>"

definition example_world :: world where
  "example_world =
     \<lparr>coupons = [example_coupon], orders = [], next_id = 1, stripe_calls = []\<rparr>"

definition example_request :: checkout_request where
  "example_request =
     \<lparr>body_products = ProductArray [example_product],
      body_couponCode = Some ''GIFTABC123'', user__id = ''u1''\<rparr>"

section \<open>Properties\<close>

subsection \<open>Auxiliary facts about double-precision rounding\<close>

text \<open>
  \<open>floor_log2\<close> is the exponent, \<open>round_half_even\<close> is a nearest integer that
  breaks ties to the even side, and \<open>fl64\<close> returns a double that is at least as
  close to its argument as any other double.
\<close>

lemma powi_bitlen_bounds:
  fixes p :: int
  assumes "0 < p"
  shows "(2::rat) powi (bitlen p - 1) \<le> of_int p" and "of_int p < (2::rat) powi bitlen p"
proof -
  have b: "2 ^ nat (bitlen p - 1) \<le> p" "p < 2 ^ nat (bitlen p)"
    using bitlen_bounds [OF assms] by simp_all
  have pos: "0 < bitlen p" using assms b(2) by (cases "bitlen p \<le> 0") auto
  have "(2::rat) powi (bitlen p - 1) = of_int (2 ^ nat (bitlen p - 1))"
    using pos by (simp add: power_int_def)
  also have "\<dots> \<le> of_int p" using b(1) by (simp only: of_int_le_iff)
  finally show "(2::rat) powi (bitlen p - 1) \<le> of_int p" .
  have "(of_int p :: rat) < of_int (2 ^ nat (bitlen p))" using b(2) by (simp only: of_int_less_iff)
  also have "\<dots> = (2::rat) powi bitlen p" using pos by (simp add: power_int_def)
  finally show "of_int p < (2::rat) powi bitlen p" .
qed

lemma floor_log2_bounds:
  assumes "0 < x"
  shows "2 powi floor_log2 x \<le> x" and "x < 2 powi (floor_log2 x + 1)"
proof -
  obtain p q where pq: "quotient_of x = (p, q)" by (cases "quotient_of x")
  have q: "0 < q" using quotient_of_denom_pos [OF pq] .
  have x: "x = of_int p / of_int q" using quotient_of_div [OF pq] .
  have p: "0 < p" using assms q x by (simp add: zero_less_divide_iff)
  let ?k = "bitlen p - bitlen q"
  have qr: "(0::rat) < of_int q" using q by simp
  have up: "x < 2 powi (?k + 1)"
  proof -
    have "x * of_int q = of_int p" using x qr by simp
    also have "\<dots> < (2::rat) powi bitlen p" using powi_bitlen_bounds(2) [OF p] .
    also have "\<dots> = 2 powi (?k + 1) * 2 powi (bitlen q - 1)"
      by (simp add: power_int_add [symmetric])
    also have "\<dots> \<le> 2 powi (?k + 1) * of_int q"
      using powi_bitlen_bounds(1) [OF q] by (simp add: mult_left_mono)
    finally show ?thesis using qr by simp
  qed
  have lo: "2 powi (?k - 1) \<le> x"
  proof -
    have "(2::rat) powi (?k - 1) * of_int q \<le> 2 powi (?k - 1) * 2 powi bitlen q"
      using powi_bitlen_bounds(2) [OF q] by (simp add: mult_left_mono)
    also have "\<dots> = 2 powi (bitlen p - 1)"
      by (simp add: power_int_add [symmetric])
    also have "\<dots> \<le> of_int p" using powi_bitlen_bounds(1) [OF p] .
    also have "\<dots> = x * of_int q" using x qr by simp
    finally show ?thesis using qr by simp
  qed
  have fl: "floor_log2 x = (if 2 powi ?k \<le> x then ?k else ?k - 1)"
    by (simp add: floor_log2_def pq)
  show "2 powi floor_log2 x \<le> x" using lo by (simp add: fl)
  show "x < 2 powi (floor_log2 x + 1)" using up by (auto simp: fl)
qed

lemma floor_log2_unique:
  assumes "0 < x" and "2 powi e \<le> x" and "x < 2 powi (e + 1)"
  shows "floor_log2 x = e"
proof -
  have "(2::rat) powi e < 2 powi (floor_log2 x + 1)"
    using assms(2) floor_log2_bounds(2) [OF assms(1)] by (rule le_less_trans)
  then have 1: "e < floor_log2 x + 1"
    using power_int_increasing [of "floor_log2 x + 1" e "2::rat"] by (cases "e < floor_log2 x + 1") auto
  have "(2::rat) powi floor_log2 x < 2 powi (e + 1)"
    using floor_log2_bounds(1) [OF assms(1)] assms(3) by (rule le_less_trans)
  then have 2: "floor_log2 x < e + 1"
    using power_int_increasing [of "e + 1" "floor_log2 x" "2::rat"] by (cases "floor_log2 x < e + 1") auto
  from 1 2 show ?thesis by simp
qed

lemma round_half_even_nearest: "\<bar>of_int (round_half_even r) - r\<bar> \<le> 1 / 2"
proof -
  have "of_int \<lfloor>r\<rfloor> \<le> r" "r < of_int \<lfloor>r\<rfloor> + 1" by linarith+
  then show ?thesis by (auto simp: round_half_even_def Let_def)
qed

lemma round_half_even_tie:
  "r - of_int \<lfloor>r\<rfloor> = 1 / 2 \<Longrightarrow> even (round_half_even r)"
  by (simp add: round_half_even_def Let_def)

lemma round_half_even_eqI:
  assumes "of_int n - 1 / 2 < r" and "r < of_int n + 1 / 2"
  shows "round_half_even r = n"
proof -
  have "\<lfloor>r\<rfloor> = n \<or> \<lfloor>r\<rfloor> = n - 1" using assms by linarith
  then show ?thesis
  proof
    assume "\<lfloor>r\<rfloor> = n"
    then show ?thesis using assms by (simp add: round_half_even_def Let_def)
  next
    assume f: "\<lfloor>r\<rfloor> = n - 1"
    then show ?thesis using assms by (simp add: round_half_even_def Let_def)
  qed
qed

lemma round_half_even_of_int: "round_half_even (of_int n) = n"
  by (rule round_half_even_eqI) simp_all

lemma fl64_pos_error:
  assumes "0 < x" and "fl64_pos x = Finite y"
  shows "\<bar>y - x\<bar> \<le> 2 powi (max (floor_log2 x) (- 1022) - 53)"
proof -
  let ?e = "max (floor_log2 x) (- 1022)"
  let ?q = "(2::rat) powi (?e - 52)"
  let ?n = "round_half_even (x / ?q)"
  have q: "0 < ?q" by simp
  have y: "y = of_int ?n * ?q"
    using assms(2) by (simp add: fl64_pos_def Let_def split: if_splits)
  have "\<bar>y - x\<bar> = \<bar>of_int ?n - x / ?q\<bar> * ?q"
  proof -
    have "y - x = (of_int ?n - x / ?q) * ?q" using q y by (simp add: field_simps)
    then show ?thesis using q by (simp add: abs_mult)
  qed
  also have "\<dots> \<le> 1 / 2 * ?q"
    using round_half_even_nearest [of "x / ?q"] q by (simp add: mult_right_mono)
  also have "\<dots> = 2 powi (?e - 53)"
  proof -
    have "?q = 2 powi (?e - 53 + 1)" by simp
    also have "\<dots> = 2 powi (?e - 53) * 2" by (subst power_int_add) simp_all
    finally show ?thesis by simp
  qed
  finally show ?thesis .
qed

lemma fl64_pos_eqI:
  assumes "0 < x" and "2 powi e \<le> x" and "x < 2 powi (e + 1)"
    and "- 1022 \<le> e" and "e \<le> 1022"
    and "of_int n - 1 / 2 < x / 2 powi (e - 52)"
    and "x / 2 powi (e - 52) < of_int n + 1 / 2"
  shows "fl64_pos x = Finite (of_int n * 2 powi (e - 52))"
proof -
  let ?q = "(2::rat) powi (e - 52)"
  have e: "max (floor_log2 x) (- 1022) = e"
    using floor_log2_unique [OF assms(1-3)] assms(4) by simp
  have n: "round_half_even (x / ?q) = n"
    using assms(6,7) by (rule round_half_even_eqI)
  have q: "0 < ?q" by simp
  have "x / ?q < 2 powi (e + 1) / ?q" using assms(3) q by (simp add: divide_strict_right_mono)
  also have "\<dots> = 2 powi 53" by (simp add: power_int_diff [symmetric])
  finally have "of_int n - 1 / 2 < (2::rat) powi 53" using assms(6) by simp
  then have "(of_int n :: rat) < of_int (2 ^ 53 + 1)" by (simp add: power_int_def)
  then have "n < 2 ^ 53 + 1" by (simp only: of_int_less_iff)
  then have "n \<le> 2 ^ 53" by simp
  then have "(of_int n :: rat) \<le> of_int (2 ^ 53)" by (simp only: of_int_le_iff)
  then have "(of_int n :: rat) \<le> 2 powi 53" by (simp add: power_int_def)
  then have "of_int n * ?q \<le> 2 powi 53 * ?q" using q by (simp add: mult_right_mono)
  also have "\<dots> = 2 powi (e + 1)"
  proof -
    have "(2::rat) powi 53 * 2 powi (e - 52) = 2 powi (53 + (e - 52))"
      by (subst power_int_add) simp_all
    moreover have "53 + (e - 52) = e + 1" by simp
    ultimately show ?thesis by (simp only:)
  qed
  also have "\<dots> < 2 powi 1024"
    using assms(5) power_int_strict_increasing [of "e + 1" 1024 "2::rat"] by simp
  finally have "\<not> 2 powi 1024 \<le> of_int n * ?q" by simp
  then show ?thesis by (simp add: fl64_pos_def Let_def e n)
qed

lemma round_half_even_le_other:
  "\<bar>of_int (round_half_even r) - r\<bar> \<le> \<bar>of_int k - r\<bar>"
proof (cases "k = round_half_even r")
  case True
  then show ?thesis by simp
next
  case False
  then have "1 \<le> \<bar>k - round_half_even r\<bar>" by simp
  then have "(1::rat) \<le> \<bar>of_int k - of_int (round_half_even r)\<bar>"
    by (metis of_int_1 of_int_abs of_int_diff of_int_le_iff)
  then show ?thesis using round_half_even_nearest [of r] by linarith
qed

lemma fl64_pos_nearest:
  assumes x: "0 < x" and y: "fl64_pos x = Finite y"
    and m: "\<bar>m\<bar> < 2 ^ 53" and d: "- 1022 \<le> d"
  shows "\<bar>y - x\<bar> \<le> \<bar>of_int m * 2 powi (d - 52) - x\<bar>"
proof -
  let ?e = "max (floor_log2 x) (- 1022)"
  let ?q = "(2::rat) powi (?e - 52)"
  let ?n = "round_half_even (x / ?q)"
  let ?z = "of_int m * (2::rat) powi (d - 52)"
  have q: "0 < ?q" by simp
  have yq: "y = of_int ?n * ?q"
    using y by (simp add: fl64_pos_def Let_def split: if_splits)
  have grid: "\<bar>y - x\<bar> \<le> \<bar>of_int k * ?q - x\<bar>" for k
  proof -
    have "\<bar>y - x\<bar> = \<bar>of_int ?n - x / ?q\<bar> * ?q"
    proof -
      have "y - x = (of_int ?n - x / ?q) * ?q" using q yq by (simp add: field_simps)
      then show ?thesis using q by (simp add: abs_mult)
    qed
    also have "\<dots> \<le> \<bar>of_int k - x / ?q\<bar> * ?q"
      using round_half_even_le_other [of "x / ?q" k] q by (simp add: mult_right_mono)
    also have "\<dots> = \<bar>of_int k * ?q - x\<bar>"
    proof -
      have "of_int k * ?q - x = (of_int k - x / ?q) * ?q" using q by (simp add: field_simps)
      then show ?thesis using q by (simp add: abs_mult)
    qed
    finally show ?thesis .
  qed
  show ?thesis
  proof (cases "?e \<le> d")
    case True
    have "(2::rat) powi (d - 52) = 2 powi (d - ?e) * ?q"
      by (subst power_int_add [symmetric]) simp_all
    also have "(2::rat) powi (d - ?e) = of_int (2 ^ nat (d - ?e))"
      using True by (simp add: power_int_def)
    finally have pw: "(2::rat) powi (d - 52) = of_int (2 ^ nat (d - ?e)) * ?q" .
    have "?z = of_int (m * 2 ^ nat (d - ?e)) * ?q"
      by (subst pw) (simp only: of_int_mult mult.assoc)
    then show ?thesis using grid [of "m * 2 ^ nat (d - ?e)"] by (simp only:)
  next
    case False
    then have lt: "d < ?e" by linarith
    with d have e: "?e = floor_log2 x" by linarith
    have lo: "2 powi ?e \<le> x"
      using floor_log2_bounds(1) [OF x] e by simp
    have "\<bar>?z\<bar> = of_int \<bar>m\<bar> * 2 powi (d - 52)" by (simp add: abs_mult)
    also have "\<dots> < of_int (2 ^ 53) * 2 powi (d - 52)"
      using m by (simp only: mult_strict_right_mono of_int_less_iff zero_less_power_int zero_less_numeral)
    also have "\<dots> = 2 powi 53 * 2 powi (d - 52)" by (simp add: power_int_def)
    also have "\<dots> = 2 powi (d + 1)"
    proof -
      have "(2::rat) powi 53 * 2 powi (d - 52) = 2 powi (53 + (d - 52))"
        by (subst power_int_add) simp_all
      moreover have "53 + (d - 52) = d + 1" by simp
      ultimately show ?thesis by (simp only:)
    qed
    also have "\<dots> \<le> 2 powi ?e"
      using lt by (intro power_int_increasing) simp_all
    finally have zlt: "\<bar>?z\<bar> < 2 powi ?e" .
    have "(2::rat) powi ?e = 2 powi 52 * ?q"
    proof -
      have "(2::rat) powi 52 * 2 powi (?e - 52) = 2 powi (52 + (?e - 52))"
        by (subst power_int_add) simp_all
      moreover have "52 + (?e - 52) = ?e" by simp
      ultimately show ?thesis by (simp only:)
    qed
    also have "\<dots> = of_int (2 ^ 52) * ?q" by (simp add: power_int_def)
    finally have p: "(2::rat) powi ?e = of_int (2 ^ 52) * ?q" .
    have "\<bar>y - x\<bar> \<le> \<bar>2 powi ?e - x\<bar>"
      using grid [of "2 ^ 52"] by (simp only: p)
    also have "\<dots> = x - 2 powi ?e" using lo by simp
    also have "\<dots> \<le> \<bar>?z - x\<bar>" using zlt lo by linarith
    finally show ?thesis .
  qed
qed

lemma fl64_pos_grid:
  assumes "0 < x" and "fl64_pos x = Finite y"
  shows "\<exists>n. 0 \<le> n \<and> n \<le> 2 ^ 53 \<and>
           y = of_int n * 2 powi (max (floor_log2 x) (- 1022) - 52) \<and> y < 2 powi 1024"
proof -
  let ?e = "max (floor_log2 x) (- 1022)"
  let ?q = "(2::rat) powi (?e - 52)"
  let ?n = "round_half_even (x / ?q)"
  have q: "0 < ?q" by simp
  have y: "y = of_int ?n * ?q" and fin: "y < 2 powi 1024"
    using assms(2) by (simp_all add: fl64_pos_def Let_def split: if_splits)
  have near: "\<bar>of_int ?n - x / ?q\<bar> \<le> 1 / 2"
    by (rule round_half_even_nearest)
  have "0 < x / ?q" using assms(1) q by simp
  with near have "(- 1 :: rat) < of_int ?n" by linarith
  then have "(of_int (- 1) :: rat) < of_int ?n" by simp
  then have "- 1 < ?n" by (simp only: of_int_less_iff)
  then have lo: "0 \<le> ?n" by simp
  have "x < 2 powi (floor_log2 x + 1)" using floor_log2_bounds(2) [OF assms(1)] .
  also have "\<dots> \<le> 2 powi (?e + 1)" by (intro power_int_increasing) simp_all
  finally have "x / ?q < 2 powi (?e + 1) / ?q" using q by (simp add: divide_strict_right_mono)
  also have "\<dots> = 2 powi 53" by (simp add: power_int_diff [symmetric])
  finally have "of_int ?n - 1 / 2 < (2::rat) powi 53" using near by linarith
  then have "(of_int ?n :: rat) < of_int (2 ^ 53 + 1)" by (simp add: power_int_def)
  then have "?n < 2 ^ 53 + 1" by (simp only: of_int_less_iff)
  then have hi: "?n \<le> 2 ^ 53" by simp
  from lo hi y fin show ?thesis by blast
qed

text \<open>The roundings that the examples below need.\<close>

lemma fl64_50: "fl64 50 = Finite 50"
proof -
  have "fl64_pos 50 = Finite (of_int 7036874417766400 * 2 powi (5 - 52))"
    by (rule fl64_pos_eqI) (simp_all add: power_int_def power_divide)
  then show ?thesis by (simp add: fl64_def power_int_def power_divide)
qed

lemma fl64_5000: "fl64 5000 = Finite 5000"
proof -
  have "fl64_pos 5000 = Finite (of_int 5497558138880000 * 2 powi (12 - 52))"
    by (rule fl64_pos_eqI) (simp_all add: power_int_def power_divide)
  then show ?thesis by (simp add: fl64_def power_int_def power_divide)
qed

lemma fl64_1115_1000: "fl64 (223 / 200) = Finite (5021513584518103 / 4503599627370496)"
proof -
  have "fl64_pos (223 / 200) = Finite (of_int 5021513584518103 * 2 powi (0 - 52))"
    by (rule fl64_pos_eqI) (simp_all add: power_int_def power_divide)
  then show ?thesis by (simp add: fl64_def power_int_def power_divide)
qed

lemma fl64_double_1115:
  "fl64 (5021513584518103 / 4503599627370496) = Finite (5021513584518103 / 4503599627370496)"
proof -
  have "fl64_pos (5021513584518103 / 4503599627370496) =
          Finite (of_int 5021513584518103 * 2 powi (0 - 52))"
    by (rule fl64_pos_eqI) (simp_all add: power_int_def power_divide)
  then show ?thesis by (simp add: fl64_def power_int_def power_divide)
qed

lemma fl64_double_1115_times_100:
  "fl64 (125537839612952575 / 1125899906842624) = Finite (223 / 2)"
proof -
  have "fl64_pos (125537839612952575 / 1125899906842624) =
          Finite (of_int 7846114975809536 * 2 powi (6 - 52))"
    by (rule fl64_pos_eqI) (simp_all add: power_int_def power_divide)
  then show ?thesis by (simp add: fl64_def power_int_def power_divide)
qed

lemma fl64_1005_1000: "fl64 (201 / 200) = Finite (1131529406376837 / 1125899906842624)"
proof -
  have "fl64_pos (201 / 200) = Finite (of_int 4526117625507348 * 2 powi (0 - 52))"
    by (rule fl64_pos_eqI) (simp_all add: power_int_def power_divide)
  then show ?thesis by (simp add: fl64_def power_int_def power_divide)
qed

lemma fl64_double_1005_times_100:
  "fl64 (28288235159420925 / 281474976710656) = Finite (7072058789855231 / 70368744177664)"
proof -
  have "fl64_pos (28288235159420925 / 281474976710656) =
          Finite (of_int 7072058789855231 * 2 powi (6 - 52))"
    by (rule fl64_pos_eqI) (simp_all add: power_int_def power_divide)
  then show ?thesis by (simp add: fl64_def power_int_def power_divide)
qed

lemma Math_round_eqI:
  assumes "of_int n - 1 / 2 \<le> x" and "x < of_int n + 1 / 2"
  shows "Math_round x = n"
  unfolding Math_round_def using assms by linarith

subsection \<open>Auxiliary facts about createCheckoutSession\<close>

lemma Math_round_zero: "Math_round 0 = 0"
  by (simp add: Math_round_def floor_eq_iff)

lemma Math_round_round: "Math_round x = round x"
  by (simp add: Math_round_def round_def)

lemma applyDiscount_zero: "applyDiscount 0 c = 0"
  by (simp add: applyDiscount_def Math_round_zero split: option.split)

lemma rewardCheck_zero: "rewardCheck e 0 u w = w"
  by (simp add: rewardCheck_def)

lemma discountsFor_store:
  assumes "discountsFor e c w = (w1, ds)"
  shows "coupons w1 = coupons w" and "orders w1 = orders w" and "next_id w1 = next_id w"
  using assms
  by (auto simp: discountsFor_def createStripeCoupon_def split: option.splits)

lemma discountsFor_calls:
  assumes "discountsFor e c w = (w1, ds)"
  shows "\<exists>cs. stripe_calls w1 = stripe_calls w @ cs \<and> (\<forall>p. SessionsCreate p \<notin> set cs)"
  using assms
  by (auto simp: discountsFor_def createStripeCoupon_def split: option.splits)

lemma createCheckoutSession_array:
  assumes "body_products req = ProductArray ps" and "ps \<noteq> []"
    and "discountsFor e (requestCoupon req w) w = (w1, ds)"
  shows "createCheckoutSession e req w =
     (case ds of
        Inl m \<Rightarrow> (w1, checkoutFailure m)
      | Inr dl \<Rightarrow>
         (case stripe_sessions_create e (sessionParams e req ps dl) of
            Inl m \<Rightarrow> (w1\<lparr>stripe_calls := stripe_calls w1 @ [SessionsCreate (sessionParams e req ps dl)]\<rparr>,
                      checkoutFailure m)
          | Inr sid \<Rightarrow> (w1\<lparr>stripe_calls := stripe_calls w1 @ [SessionsCreate (sessionParams e req ps dl)]\<rparr>,
                        \<lparr>status = 200, json = CheckoutBody sid 0\<rparr>)))"
  using assms
  by (simp add: createCheckoutSession_def Let_def applyDiscount_zero
      rewardCheck_zero split: sum.split)

lemma createCheckoutSession_store:
  "coupons (fst (createCheckoutSession e req w)) = coupons w \<and>
   orders (fst (createCheckoutSession e req w)) = orders w \<and>
   next_id (fst (createCheckoutSession e req w)) = next_id w"
proof (cases "body_products req")
  case NotArray
  then show ?thesis by (simp add: createCheckoutSession_def)
next
  case (ProductArray ps)
  show ?thesis
  proof (cases "ps = []")
    case True
    with ProductArray show ?thesis by (simp add: createCheckoutSession_def)
  next
    case False
    obtain w1 ds where d: "discountsFor e (requestCoupon req w) w = (w1, ds)"
      by (cases "discountsFor e (requestCoupon req w) w") blast
    show ?thesis
      unfolding createCheckoutSession_array [OF ProductArray False d]
      by (simp add: discountsFor_store [OF d] split: sum.split)
  qed
qed

lemma createCheckoutSession_body:
  assumes "json (snd (createCheckoutSession e req w)) = CheckoutBody sid t"
  shows "t = 0"
proof (cases "body_products req")
  case NotArray
  with assms show ?thesis by (simp add: createCheckoutSession_def)
next
  case (ProductArray ps)
  show ?thesis
  proof (cases "ps = []")
    case True
    with ProductArray assms show ?thesis by (simp add: createCheckoutSession_def)
  next
    case False
    obtain w1 ds where d: "discountsFor e (requestCoupon req w) w = (w1, ds)"
      by (cases "discountsFor e (requestCoupon req w) w") blast
    show ?thesis
      using assms unfolding createCheckoutSession_array [OF ProductArray False d]
      by (auto simp: checkoutFailure_def split: sum.splits)
  qed
qed

lemma createCheckoutSession_calls:
  assumes "body_products req = ProductArray ps" and "ps \<noteq> []"
  shows "\<exists>cs. stripe_calls (fst (createCheckoutSession e req w)) = stripe_calls w @ cs \<and>
           (\<forall>p. SessionsCreate p \<in> set cs \<longrightarrow>
              line_items p = lineItems ps \<and>
              m_products (sp_metadata p) = JSON_stringify (snapshot ps))"
proof -
  obtain w1 ds where d: "discountsFor e (requestCoupon req w) w = (w1, ds)"
    by (cases "discountsFor e (requestCoupon req w) w") blast
  obtain cs where cs: "stripe_calls w1 = stripe_calls w @ cs" "\<forall>p. SessionsCreate p \<notin> set cs"
    using discountsFor_calls [OF d] by blast
  show ?thesis
  proof (cases ds)
    case (Inl m)
    then show ?thesis
      unfolding createCheckoutSession_array [OF assms d] using cs by simp
  next
    case (Inr dl)
    have "stripe_calls (fst (createCheckoutSession e req w)) =
            stripe_calls w @ (cs @ [SessionsCreate (sessionParams e req ps dl)])"
      unfolding createCheckoutSession_array [OF assms d] using cs Inr
      by (simp split: sum.split)
    moreover have "\<forall>p. SessionsCreate p \<in> set (cs @ [SessionsCreate (sessionParams e req ps dl)]) \<longrightarrow>
              line_items p = lineItems ps \<and>
              m_products (sp_metadata p) = JSON_stringify (snapshot ps)"
      using cs by (auto simp: sessionParams_def)
    ultimately show ?thesis by blast
  qed
qed

lemma length_lineItems: "length (lineItems ps) = length ps"
  by (simp add: lineItems_def)

lemma nth_lineItems:
  assumes "i < length ps"
  shows "unit_amount (price_data (lineItems ps ! i)) =
           (case times100 (fl64 (p_price (ps ! i))) of
              Finite y \<Rightarrow> Finite (of_int (round y))
            | PosInfinity \<Rightarrow> PosInfinity
            | NegInfinity \<Rightarrow> NegInfinity)"
    and "li_quantity (lineItems ps ! i) =
           (case p_quantity (ps ! i) of None \<Rightarrow> 1 | Some q \<Rightarrow> if q = 0 then 1 else q)"
  using assms
  by (simp_all add: lineItems_def Let_def Math_round_double_def Math_round_round or_one_def
      split: js_number.split)

subsection \<open>Auxiliary facts about the collections\<close>

lemma length_updateFirst: "length (updateFirst P f xs) = length xs"
  by (induction xs) auto

lemma map_updateFirst:
  "(\<And>x. g (f x) = g x) \<Longrightarrow> map g (updateFirst P f xs) = map g xs"
  by (induction xs) auto

lemma find_updateFirst:
  "find P xs = Some c \<Longrightarrow> P (f c) \<Longrightarrow> find P (updateFirst P f xs) = Some (f c)"
  by (induction xs) (auto split: if_splits)

lemma updateFirst_no_match:
  "find P xs = None \<Longrightarrow> updateFirst P f xs = xs"
  by (induction xs) (auto split: if_splits)

lemma filter_updateFirst:
  "(\<And>x. P x \<Longrightarrow> P (f x)) \<Longrightarrow>
     filter (\<lambda>x. \<not> P x) (updateFirst P f xs) = filter (\<lambda>x. \<not> P x) xs"
  by (induction xs) auto

lemma deleteFirst_subset: "set (deleteFirst P xs) \<subseteq> set xs"
  by (induction xs) auto

lemma distinct_map_deleteFirst:
  "distinct (map f xs) \<Longrightarrow> distinct (map f (deleteFirst P xs))"
proof (induction xs)
  case Nil
  then show ?case by simp
next
  case (Cons x xs)
  then show ?case using deleteFirst_subset [of P xs] by auto
qed

lemma deleteFirst_owner_gone:
  "distinct (map f xs) \<Longrightarrow> \<forall>x\<in>set (deleteFirst (\<lambda>c. f c = u) xs). f x \<noteq> u"
proof (induction xs)
  case Nil
  then show ?case by simp
next
  case (Cons x xs)
  then show ?case by (auto simp: image_iff)
qed

subsection \<open>Auxiliary facts about createNewCoupon\<close>

lemma upper_digit36_below: "\<forall>n\<in>set [0..<36]. upper_char (digit36 n) \<in> set base36_upper"
  by code_simp

lemma upper_digit36: "upper_char (digit36 d) \<in> set base36_upper"
proof -
  have "d mod 36 \<in> set [0..<36]" by simp
  then have "upper_char (digit36 (d mod 36)) \<in> set base36_upper"
    using upper_digit36_below by blast
  then show ?thesis by (simp add: digit36_def)
qed

lemma upper_digit36_nth_below:
  "\<forall>n\<in>set [0..<36]. upper_char (digit36 n) = base36_upper ! n"
  by code_simp

lemma upper_digit36_nth: "upper_char (digit36 d) = base36_upper ! (d mod 36)"
proof -
  have "d mod 36 \<in> set [0..<36]" by simp
  then have "upper_char (digit36 (d mod 36)) = base36_upper ! (d mod 36 mod 36)"
    using upper_digit36_nth_below by (simp del: set_upt)
  then show ?thesis by (simp add: digit36_def)
qed

lemma substring_toString36:
  "substring 2 8 (toString36 ds) = map digit36 (take 6 ds)"
  by (simp add: substring_def toString36_def take_map)

lemma createNewCoupon_coupons:
  "coupons (fst (createNewCoupon e u w)) =
     deleteFirst (\<lambda>c. userId c = u) (coupons w) @ [snd (createNewCoupon e u w)]"
  by (simp add: createNewCoupon_def Let_def Coupon_save_def Coupon_findOneAndDelete_def)

lemma createNewCoupon_fields:
  "c__id (snd (createNewCoupon e u w)) = next_id w"
  "userId (snd (createNewCoupon e u w)) = u"
  "discountPercentage (snd (createNewCoupon e u w)) = 10"
  "expirationDate (snd (createNewCoupon e u w)) = Date_now e + 2592000000"
  "code (snd (createNewCoupon e u w)) =
     ''GIFT'' @ map upper_char (map digit36 (take 6 (Math_random_digits e)))"
  by (simp_all add: createNewCoupon_def Let_def Coupon_findOneAndDelete_def
      substring_toString36 toUpperCase_def)

lemma rewardCheck_coupons:
  "coupons (rewardCheck e t u w) =
     (if 20000 \<le> t
      then deleteFirst (\<lambda>c. userId c = u) (coupons w) @ [snd (createNewCoupon e u w)]
      else coupons w)"
  by (simp add: rewardCheck_def createNewCoupon_coupons)

lemma checkoutSuccess_owners:
  "map userId (coupons (fst (checkoutSuccess e sid w))) = map userId (coupons w)"
  by (simp add: checkoutSuccess_def Let_def Order_save_def Coupon_findOneAndUpdate_def
      map_updateFirst split: sum.split)

subsection \<open>Auxiliary facts about checkoutSuccess\<close>

lemma checkoutSuccess_paid:
  assumes "stripe_sessions_retrieve e sid = Inr s"
    and "payment_status s = ''paid''"
    and "JSON_parse (m_products (session_metadata s)) = Inr snap"
  shows "checkoutSuccess e sid w =
     (let w2 = (if m_couponCode (session_metadata s) \<noteq> []
                then Coupon_findOneAndUpdate (m_couponCode (session_metadata s))
                       (m_userId (session_metadata s))
                       (w\<lparr>stripe_calls := stripe_calls w @ [SessionsRetrieve sid]\<rparr>)
                else w\<lparr>stripe_calls := stripe_calls w @ [SessionsRetrieve sid]\<rparr>)
      in (Order_save (newOrder sid s snap w2) (w2\<lparr>next_id := Suc (next_id w2)\<rparr>),
          Some \<lparr>status = 200,
                json = SuccessBody True
                  ''Payment successful, order created, and coupon deactivated if used.''
                  (next_id w2)\<rparr>))"
  using assms by (simp add: checkoutSuccess_def Let_def newOrder_def)

lemma checkoutSuccess_paid_effect:
  assumes "stripe_sessions_retrieve e s = Inr sess"
    and "payment_status sess = ''paid''"
    and "JSON_parse (m_products (session_metadata sess)) = Inr snap"
  shows "orders (fst (checkoutSuccess e s w)) = orders w @ [newOrder s sess snap w]"
    and "next_id (fst (checkoutSuccess e s w)) = Suc (next_id w)"
    and "snd (checkoutSuccess e s w) =
           Some \<lparr>status = 200,
                 json = SuccessBody True
                   ''Payment successful, order created, and coupon deactivated if used.''
                   (next_id w)\<rparr>"
  using assms
  by (simp_all add: checkoutSuccess_paid Let_def Order_save_def Coupon_findOneAndUpdate_def
      newOrder_def)

subsection \<open>Claims about createCheckoutSession\<close>

text \<open>
  Claim C7. When \<open>products\<close> is not an array, or is the empty array,
  \<open>createCheckoutSession\<close> answers 400 with the validation error and returns the
  world as it was: no call to the gateway was recorded and neither collection changed.
\<close>

theorem createCheckoutSession_invalid_products:
  assumes "body_products req = NotArray \<or> body_products req = ProductArray []"
  shows "createCheckoutSession e req w =
           (w, \<lparr>status = 400, json = ErrorBody ''Invalid or empty products array''\<rparr>)"
  using assms by (auto simp: createCheckoutSession_def)

theorem createCheckoutSession_invalid_products_witness:
  "body_products (example_request\<lparr>body_products := ProductArray []\<rparr>) = ProductArray [] \<and>
   createCheckoutSession example_env (example_request\<lparr>body_products := ProductArray []\<rparr>)
       example_world =
     (example_world, \<lparr>status = 400, json = ErrorBody ''Invalid or empty products array''\<rparr>)"
  using createCheckoutSession_invalid_products [of "example_request\<lparr>body_products := ProductArray []\<rparr>" example_env example_world]
  by simp

text \<open>
  Claim C3. The discount is subtracted from a running total that is still 0, so it
  changes nothing: whatever the products and the coupon, a response that carries a
  \<open>totalAmount\<close> carries 0; and for a non-empty product array with a gateway
  that answers, the response is the 200 response with \<open>totalAmount = 0\<close>.
\<close>

theorem createCheckoutSession_total_zero:
  "applyDiscount 0 c = 0 \<and>
   (\<forall>sid t. json (snd (createCheckoutSession e req w)) = CheckoutBody sid t \<longrightarrow> t = 0) \<and>
   (\<forall>ps. body_products req = ProductArray ps \<and> ps \<noteq> [] \<and>
      (\<forall>pct. \<exists>cid. stripe_coupons_create e pct = Inr cid) \<and>
      (\<forall>params. \<exists>sid. stripe_sessions_create e params = Inr sid) \<longrightarrow>
      (\<exists>sid. snd (createCheckoutSession e req w) =
                 \<lparr>status = 200, json = CheckoutBody sid 0\<rparr>))"
proof (intro conjI allI impI)
  show "applyDiscount 0 c = 0" by (rule applyDiscount_zero)
next
  fix sid t
  assume "json (snd (createCheckoutSession e req w)) = CheckoutBody sid t"
  then show "t = 0" by (rule createCheckoutSession_body)
next
  fix ps
  assume a: "body_products req = ProductArray ps \<and> ps \<noteq> [] \<and>
      (\<forall>pct. \<exists>cid. stripe_coupons_create e pct = Inr cid) \<and>
      (\<forall>params. \<exists>sid. stripe_sessions_create e params = Inr sid)"
  obtain w1 ds where d: "discountsFor e (requestCoupon req w) w = (w1, ds)"
    by (cases "discountsFor e (requestCoupon req w) w") blast
  have "\<exists>dl. ds = Inr dl"
  proof (cases "requestCoupon req w")
    case None
    with d show ?thesis by (auto simp: discountsFor_def)
  next
    case (Some cp)
    obtain cid where "stripe_coupons_create e (discountPercentage cp) = Inr cid"
      using a by blast
    with d Some show ?thesis
      by (auto simp: discountsFor_def createStripeCoupon_def)
  qed
  then obtain dl where dl: "ds = Inr dl" ..
  obtain sid where "stripe_sessions_create e (sessionParams e req ps dl) = Inr sid"
    using a by blast
  then show "\<exists>sid. snd (createCheckoutSession e req w) =
                 \<lparr>status = 200, json = CheckoutBody sid 0\<rparr>"
    using a dl createCheckoutSession_array [of req ps e w w1 ds, OF _ _ d] by simp
qed

theorem createCheckoutSession_total_zero_witness:
  "snd (createCheckoutSession example_env example_request example_world) =
     \<lparr>status = 200, json = CheckoutBody ''cs_1'' 0\<rparr> \<and>
   json (snd (createCheckoutSession example_env example_request example_world)) =
     CheckoutBody ''cs_1'' 0 \<and> (0::rat) = 0"
proof -
  have b: "json (snd (createCheckoutSession example_env example_request example_world)) =
     CheckoutBody ''cs_1'' (of_int (applyDiscount 0 (Some example_coupon)) / 100)"
    by (simp add: createCheckoutSession_def example_env_def example_request_def
        example_world_def requestCoupon_def truthy_def Coupon_findOne_def
        example_coupon_def discountsFor_def createStripeCoupon_def Let_def)
  have s: "status (snd (createCheckoutSession example_env example_request example_world)) = 200"
    by (simp add: createCheckoutSession_def example_env_def example_request_def
        example_world_def requestCoupon_def truthy_def Coupon_findOne_def
        example_coupon_def discountsFor_def createStripeCoupon_def Let_def)
  from createCheckoutSession_total_zero
    [of "Some example_coupon" example_env example_request example_world] b
  have "of_int (applyDiscount 0 (Some example_coupon)) / 100 = (0::rat)" by blast
  with b s show ?thesis
    by (cases "snd (createCheckoutSession example_env example_request example_world)") simp
qed

text \<open>
  Claim C4. The total at the reward check is at most 0, so it never reaches 20000, and
  \<open>createCheckoutSession\<close> leaves the coupon collection and the id counter
  as they were: \<open>createNewCoupon\<close>, which always takes a fresh id, is never
  run.
\<close>

theorem createCheckoutSession_never_mints:
  "applyDiscount 0 (requestCoupon req w) \<le> 0 \<and>
   \<not> 20000 \<le> applyDiscount 0 (requestCoupon req w) \<and>
   coupons (fst (createCheckoutSession e req w)) = coupons w \<and>
   next_id (fst (createCheckoutSession e req w)) = next_id w \<and>
   next_id (fst (createNewCoupon e u w)) = Suc (next_id w)"
proof -
  have "next_id (fst (createNewCoupon e u w)) = Suc (next_id w)"
    by (simp add: createNewCoupon_def Let_def Coupon_save_def Coupon_findOneAndDelete_def)
  with createCheckoutSession_store [of e req w] show ?thesis
    by (simp add: applyDiscount_zero)
qed

text \<open>
  Claim C6, as amended. \<open>lineItems\<close> builds one descriptor for each product,
  in order. The descriptor of item \<open>i\<close> has as \<open>unit_amount\<close> the result of
  \<open>Math.round\<close> on the double-precision product \<open>price * 100\<close>: the price
  brought to the nearest double, times 100 rounded to the nearest double, rounded to the
  nearest integer with halves going up (an infinite product stays infinite). Its quantity
  is the item's quantity when that is present and not 0, else 1. Every session request
  that \<open>createCheckoutSession\<close> sends for a non-empty product array carries exactly
  these descriptors.
\<close>

theorem lineItems_descriptors:
  "length (lineItems ps) = length ps \<and>
   (\<forall>i<length ps.
      unit_amount (price_data (lineItems ps ! i)) =
        (case times100 (fl64 (p_price (ps ! i))) of
           Finite y \<Rightarrow> Finite (of_int (round y))
         | PosInfinity \<Rightarrow> PosInfinity
         | NegInfinity \<Rightarrow> NegInfinity) \<and>
      li_quantity (lineItems ps ! i) =
        (case p_quantity (ps ! i) of None \<Rightarrow> 1 | Some q \<Rightarrow> if q = 0 then 1 else q)) \<and>
   (body_products req = ProductArray ps \<and> ps \<noteq> [] \<longrightarrow>
      (\<exists>cs. stripe_calls (fst (createCheckoutSession e req w)) = stripe_calls w @ cs \<and>
            (\<forall>p. SessionsCreate p \<in> set cs \<longrightarrow> line_items p = lineItems ps)))"
proof (intro conjI allI impI)
  show "length (lineItems ps) = length ps" by (rule length_lineItems)
next
  fix i assume "i < length ps"
  then show "unit_amount (price_data (lineItems ps ! i)) =
        (case times100 (fl64 (p_price (ps ! i))) of
           Finite y \<Rightarrow> Finite (of_int (round y))
         | PosInfinity \<Rightarrow> PosInfinity
         | NegInfinity \<Rightarrow> NegInfinity)"
    by (rule nth_lineItems(1))
next
  fix i assume "i < length ps"
  then show "li_quantity (lineItems ps ! i) =
        (case p_quantity (ps ! i) of None \<Rightarrow> 1 | Some q \<Rightarrow> if q = 0 then 1 else q)"
    by (rule nth_lineItems(2))
next
  assume a: "body_products req = ProductArray ps \<and> ps \<noteq> []"
  then have "body_products req = ProductArray ps" and "ps \<noteq> []" by simp_all
  from createCheckoutSession_calls [OF this, of e w]
  show "\<exists>cs. stripe_calls (fst (createCheckoutSession e req w)) = stripe_calls w @ cs \<and>
            (\<forall>p. SessionsCreate p \<in> set cs \<longrightarrow> line_items p = lineItems ps)"
    by blast
qed

text \<open>
  Witness for C6: the example product, 50.00 with quantity 2, gives one descriptor with
  \<open>unit_amount = 5000\<close> and quantity 2.
\<close>

theorem lineItems_descriptors_witness:
  "body_products example_request = ProductArray [example_product] \<and>
   length (lineItems [example_product]) = 1 \<and>
   unit_amount (price_data (lineItems [example_product] ! 0)) = Finite 5000 \<and>
   li_quantity (lineItems [example_product] ! 0) = 2 \<and>
   stripe_calls (fst (createCheckoutSession example_env example_request example_world)) =
     [CouponsCreate 10 ''once'',
      SessionsCreate (sessionParams example_env example_request [example_product] [''co_1''])] \<and>
   line_items (sessionParams example_env example_request [example_product] [''co_1'']) =
     lineItems [example_product]"
proof -
  let ?p = "sessionParams example_env example_request [example_product] [''co_1'']"
  note c = lineItems_descriptors
    [of "[example_product]" example_request example_env example_world]
  have b: "body_products example_request = ProductArray [example_product]"
    by (simp add: example_request_def)
  have calls: "stripe_calls (fst (createCheckoutSession example_env example_request
      example_world)) = [CouponsCreate 10 ''once'', SessionsCreate ?p]"
    by (simp add: createCheckoutSession_def example_env_def example_request_def
        example_world_def requestCoupon_def truthy_def Coupon_findOne_def
        example_coupon_def discountsFor_def createStripeCoupon_def Let_def
        applyDiscount_zero rewardCheck_zero)
  from c b obtain cs where
    cs: "stripe_calls (fst (createCheckoutSession example_env example_request example_world)) =
           stripe_calls example_world @ cs"
      "\<forall>p. SessionsCreate p \<in> set cs \<longrightarrow> line_items p = lineItems [example_product]"
    by auto
  from cs(1) calls have "cs = [CouponsCreate 10 ''once'', SessionsCreate ?p]"
    by (simp add: example_world_def)
  with cs(2) have li: "line_items ?p = lineItems [example_product]" by simp
  from c have q: "length (lineItems [example_product]) = 1"
    "unit_amount (price_data (lineItems [example_product] ! 0)) = Finite 5000"
    "li_quantity (lineItems [example_product] ! 0) = 2"
    by (simp_all add: example_product_def fl64_50 times100_def fl64_5000)
  from b q calls li show ?thesis by simp
qed

text \<open>
  Counterexample to C6 as stated. For the item \<open>{price: 50, quantity: 0}\<close> the
  quantity is present, and the descriptor's quantity is \<open>0 || 1 = 1\<close>, not the
  item's quantity. For the price that is the double nearest to 1.115, the code's
  \<open>unit_amount\<close> is 112, and the price times 100, rounded, is 111. For the price
  written 1.005 in the request, the code's \<open>unit_amount\<close> is 100, and 1.005 times
  100, rounded, is 101.
\<close>

theorem lineItems_descriptors_counterexample:
  "p_quantity (example_product\<lparr>p_quantity := Some 0\<rparr>) = Some 0 \<and>
   Some (li_quantity (lineItems [example_product\<lparr>p_quantity := Some 0\<rparr>] ! 0)) \<noteq>
     p_quantity (example_product\<lparr>p_quantity := Some 0\<rparr>) \<and>
   fl64 (1115 / 1000) = Finite (5021513584518103 / 4503599627370496) \<and>
   unit_amount (price_data (lineItems
     [example_product\<lparr>p_price := 5021513584518103 / 4503599627370496\<rparr>] ! 0)) =
     Finite 112 \<and>
   round (5021513584518103 / 4503599627370496 * 100 :: rat) = 111 \<and>
   unit_amount (price_data (lineItems [example_product\<lparr>p_price := 1005 / 1000\<rparr>] ! 0)) =
     Finite 100 \<and>
   round (1005 / 1000 * 100 :: rat) = 101"
proof -
  have q: "Some (li_quantity (lineItems [example_product\<lparr>p_quantity := Some 0\<rparr>] ! 0)) \<noteq>
     p_quantity (example_product\<lparr>p_quantity := Some 0\<rparr>)"
    by (simp add: lineItems_def or_one_def)
  have l: "fl64 (1115 / 1000) = Finite (5021513584518103 / 4503599627370496)"
    using fl64_1115_1000 by simp
  have m1: "Math_round (223 / 2) = 112"
    by (rule Math_round_eqI) simp_all
  have a1: "unit_amount (price_data (lineItems
     [example_product\<lparr>p_price := 5021513584518103 / 4503599627370496\<rparr>] ! 0)) = Finite 112"
    by (simp add: lineItems_def Math_round_double_def times100_def fl64_double_1115
        fl64_double_1115_times_100 m1)
  have r1: "round (5021513584518103 / 4503599627370496 * 100 :: rat) = 111"
    by (rule round_unique) simp_all
  have m2: "Math_round (7072058789855231 / 70368744177664) = 100"
    by (rule Math_round_eqI) simp_all
  have a2: "unit_amount (price_data (lineItems
     [example_product\<lparr>p_price := 1005 / 1000\<rparr>] ! 0)) = Finite 100"
    by (simp add: lineItems_def Math_round_double_def times100_def fl64_1005_1000
        fl64_double_1005_times_100 m2)
  have r2: "round (1005 / 1000 * 100 :: rat) = 101"
    by (rule round_unique) simp_all
  from q l a1 r1 a2 r2 show ?thesis by simp
qed

text \<open>
  Claim C10. The snapshot takes each id from the item's \<open>_id\<close> field and
  does not depend on the \<open>id\<close> field; every session request sent for the
  product array carries the JSON text of that snapshot in its metadata; and reconciling
  a paid session whose metadata holds that text creates an order whose product
  references are the \<open>_id\<close> fields of the submitted items, in order,
  \<open>undefined\<close> for an item without \<open>_id\<close>.
\<close>

theorem snapshot_ids_from_underscore_id:
  "map s_id (snapshot ps) = map p__id ps \<and>
   snapshot (map (p_id_update f) ps) = snapshot ps \<and>
   (body_products req = ProductArray ps \<and> ps \<noteq> [] \<longrightarrow>
      (\<exists>cs. stripe_calls (fst (createCheckoutSession e req w)) = stripe_calls w @ cs \<and>
            (\<forall>p. SessionsCreate p \<in> set cs \<longrightarrow>
               m_products (sp_metadata p) = JSON_stringify (snapshot ps)))) \<and>
   (stripe_sessions_retrieve e' sid = Inr sess \<and> payment_status sess = ''paid'' \<and>
    m_products (session_metadata sess) = JSON_stringify (snapshot ps) \<longrightarrow>
      (\<exists>ord. orders (fst (checkoutSuccess e' sid w')) = orders w' @ [ord] \<and>
             map oi_product (o_products ord) = map p__id ps \<and>
             (\<forall>i<length ps. p__id (ps ! i) = None \<longrightarrow>
                oi_product (o_products ord ! i) = None)))"
proof (intro conjI impI)
  show "map s_id (snapshot ps) = map p__id ps" by (simp add: snapshot_def)
next
  show "snapshot (map (p_id_update f) ps) = snapshot ps" by (simp add: snapshot_def)
next
  assume "body_products req = ProductArray ps \<and> ps \<noteq> []"
  then have "body_products req = ProductArray ps" and "ps \<noteq> []" by simp_all
  from createCheckoutSession_calls [OF this, of e w]
  show "\<exists>cs. stripe_calls (fst (createCheckoutSession e req w)) = stripe_calls w @ cs \<and>
            (\<forall>p. SessionsCreate p \<in> set cs \<longrightarrow>
               m_products (sp_metadata p) = JSON_stringify (snapshot ps))"
    by blast
next
  assume a: "stripe_sessions_retrieve e' sid = Inr sess \<and> payment_status sess = ''paid'' \<and>
    m_products (session_metadata sess) = JSON_stringify (snapshot ps)"
  then have r: "stripe_sessions_retrieve e' sid = Inr sess" and p: "payment_status sess = ''paid''"
    and j: "JSON_parse (m_products (session_metadata sess)) = Inr (snapshot ps)"
    by (simp_all add: JSON_parse_def JSON_stringify_def)
  let ?ord = "newOrder sid sess (snapshot ps) w'"
  have o: "orders (fst (checkoutSuccess e' sid w')) = orders w' @ [?ord]"
    by (rule checkoutSuccess_paid_effect(1) [OF r p j])
  have m: "map oi_product (o_products ?ord) = map p__id ps"
    by (simp add: newOrder_def snapshot_def comp_def)
  have "\<forall>i<length ps. p__id (ps ! i) = None \<longrightarrow> oi_product (o_products ?ord ! i) = None"
    by (simp add: newOrder_def snapshot_def)
  with o m show "\<exists>ord. orders (fst (checkoutSuccess e' sid w')) = orders w' @ [ord] \<and>
             map oi_product (o_products ord) = map p__id ps \<and>
             (\<forall>i<length ps. p__id (ps ! i) = None \<longrightarrow>
                oi_product (o_products ord ! i) = None)"
    by blast
qed

text \<open>Witness for C10: an item that has \<open>id = "p1"\<close> and no \<open>_id\<close> is
  snapshotted and ordered with an undefined product reference.\<close>

theorem snapshot_ids_from_underscore_id_witness:
  "map s_id (snapshot [example_product\<lparr>p__id := None, p_id := Some ''p1''\<rparr>]) = [None] \<and>
   map (map oi_product \<circ> o_products)
     (orders (fst (checkoutSuccess
        (example_env\<lparr>stripe_sessions_retrieve := (\<lambda>sid. Inr (example_session
           \<lparr>session_metadata := example_metadata
              \<lparr>m_products := JSON_stringify
                 (snapshot [example_product\<lparr>p__id := None, p_id := Some ''p1''\<rparr>])\<rparr>\<rparr>))\<rparr>)
        ''cs_1'' example_world))) = [[None]] \<and>
   stripe_calls (fst (createCheckoutSession example_env
       (example_request\<lparr>body_products :=
          ProductArray [example_product\<lparr>p__id := None, p_id := Some ''p1''\<rparr>]\<rparr>)
       example_world)) =
     [CouponsCreate 10 ''once'',
      SessionsCreate (sessionParams example_env
        (example_request\<lparr>body_products :=
           ProductArray [example_product\<lparr>p__id := None, p_id := Some ''p1''\<rparr>]\<rparr>)
        [example_product\<lparr>p__id := None, p_id := Some ''p1''\<rparr>] [''co_1''])] \<and>
   m_products (sp_metadata (sessionParams example_env
        (example_request\<lparr>body_products :=
           ProductArray [example_product\<lparr>p__id := None, p_id := Some ''p1''\<rparr>]\<rparr>)
        [example_product\<lparr>p__id := None, p_id := Some ''p1''\<rparr>] [''co_1''])) =
     JsonArray [\<lparr>s_id = None, s_quantity = Some 2, s_price = Some 50\<rparr>]"
proof -
  let ?P = "example_product\<lparr>p__id := None, p_id := Some ''p1''\<rparr>"
  let ?sess = "example_session\<lparr>session_metadata :=
                 example_metadata\<lparr>m_products := JSON_stringify (snapshot [?P])\<rparr>\<rparr>"
  let ?e = "example_env\<lparr>stripe_sessions_retrieve := (\<lambda>sid. Inr ?sess)\<rparr>"
  let ?req = "example_request\<lparr>body_products := ProductArray [?P]\<rparr>"
  let ?p = "sessionParams example_env ?req [?P] [''co_1'']"
  note c = snapshot_ids_from_underscore_id
    [of "[?P]" id ?req example_env example_world ?e "''cs_1''" ?sess example_world]
  have h: "stripe_sessions_retrieve ?e ''cs_1'' = Inr ?sess \<and> payment_status ?sess = ''paid'' \<and>
           m_products (session_metadata ?sess) = JSON_stringify (snapshot [?P])"
    by (simp add: example_session_def)
  from c h obtain ord where
    o: "orders (fst (checkoutSuccess ?e ''cs_1'' example_world)) = orders example_world @ [ord]"
       "map oi_product (o_products ord) = map p__id [?P]"
    by blast
  have 1: "map (map oi_product \<circ> o_products)
     (orders (fst (checkoutSuccess ?e ''cs_1'' example_world))) = [[None]]"
    using o by (simp add: example_world_def)
  have 2: "map s_id (snapshot [?P]) = [None]"
    using c by simp
  have 3: "snapshot [?P] = [\<lparr>s_id = None, s_quantity = Some 2, s_price = Some 50\<rparr>]"
    by (simp add: snapshot_def example_product_def)
  have calls: "stripe_calls (fst (createCheckoutSession example_env ?req example_world)) =
      [CouponsCreate 10 ''once'', SessionsCreate ?p]"
    by (simp add: createCheckoutSession_def example_env_def example_request_def
        example_world_def requestCoupon_def truthy_def Coupon_findOne_def
        example_coupon_def discountsFor_def createStripeCoupon_def Let_def
        applyDiscount_zero rewardCheck_zero)
  have "body_products ?req = ProductArray [?P] \<and> [?P] \<noteq> []" by simp
  with c obtain cs where
    cs: "stripe_calls (fst (createCheckoutSession example_env ?req example_world)) =
           stripe_calls example_world @ cs"
      "\<forall>p. SessionsCreate p \<in> set cs \<longrightarrow>
           m_products (sp_metadata p) = JSON_stringify (snapshot [?P])"
    by blast
  from cs(1) calls have "cs = [CouponsCreate 10 ''once'', SessionsCreate ?p]"
    by (simp add: example_world_def)
  with cs(2) have "m_products (sp_metadata ?p) = JSON_stringify (snapshot [?P])" by simp
  then have 4: "m_products (sp_metadata ?p) =
      JsonArray [\<lparr>s_id = None, s_quantity = Some 2, s_price = Some 50\<rparr>]"
    by (simp add: JSON_stringify_def 3)
  from 1 2 calls 4 show ?thesis by simp
qed

subsection \<open>Claims about createNewCoupon and the reward check\<close>

text \<open>
  Claim C9, as amended. The coupon that \<open>createNewCoupon\<close> mints for user
  \<open>u\<close> has a code made of \<open>GIFT\<close> and then the first 6 digits after the
  point of the random number's base-36 text, in upper case, or all of them when the text
  has fewer than 6: the \<open>i\<close>-th character after \<open>GIFT\<close> is the upper-case
  base-36 numeral of the \<open>i\<close>-th digit. Its \<open>discountPercentage\<close> is 10, its
  \<open>expirationDate\<close> is 30 days after \<open>Date.now()\<close>, its owner is
  \<open>u\<close>, and it is in the collection afterwards.
\<close>

theorem createNewCoupon_mints_gift_coupon:
  "\<exists>sfx. code (snd (createNewCoupon e u w)) = ''GIFT'' @ sfx \<and>
      sfx = map (\<lambda>d. base36_upper ! (d mod 36)) (take 6 (Math_random_digits e)) \<and>
      sfx = toUpperCase (take 6 (drop 2 (toString36 (Math_random_digits e)))) \<and>
      length sfx = min 6 (length (Math_random_digits e)) \<and>
      set sfx \<subseteq> set base36_upper \<and>
      discountPercentage (snd (createNewCoupon e u w)) = 10 \<and>
      expirationDate (snd (createNewCoupon e u w)) = Date_now e + 30 * (24 * 60 * 60 * 1000) \<and>
      userId (snd (createNewCoupon e u w)) = u \<and>
      snd (createNewCoupon e u w) \<in> set (coupons (fst (createNewCoupon e u w)))"
proof -
  let ?sfx = "map upper_char (map digit36 (take 6 (Math_random_digits e)))"
  have "set ?sfx \<subseteq> set base36_upper"
    using upper_digit36 by auto
  moreover have "length ?sfx = min 6 (length (Math_random_digits e))"
    by (simp add: min.commute)
  moreover have "?sfx = map (\<lambda>d. base36_upper ! (d mod 36)) (take 6 (Math_random_digits e))"
    by (simp add: upper_digit36_nth)
  moreover have "?sfx = toUpperCase (take 6 (drop 2 (toString36 (Math_random_digits e))))"
    using substring_toString36 [of "Math_random_digits e"]
    by (simp add: toUpperCase_def substring_def)
  moreover have "snd (createNewCoupon e u w) \<in> set (coupons (fst (createNewCoupon e u w)))"
    by (simp add: createNewCoupon_coupons)
  moreover have "code (snd (createNewCoupon e u w)) = ''GIFT'' @ ?sfx"
    "discountPercentage (snd (createNewCoupon e u w)) = 10"
    "expirationDate (snd (createNewCoupon e u w)) = Date_now e + 30 * (24 * 60 * 60 * 1000)"
    "userId (snd (createNewCoupon e u w)) = u"
    by (simp_all add: createNewCoupon_fields)
  ultimately show ?thesis by blast
qed

text \<open>Witness for C9: a random number whose base-36 text has ten digits after the
  point gives a code of \<open>GIFT\<close> and six characters.\<close>

theorem createNewCoupon_mints_gift_coupon_witness:
  "code (snd (createNewCoupon example_env ''u1'' example_world)) = ''GIFTA3Z0I7'' \<and>
   length (code (snd (createNewCoupon example_env ''u1'' example_world))) = 4 + 6 \<and>
   expirationDate (snd (createNewCoupon example_env ''u1'' example_world)) = 1702592000000"
proof -
  obtain sfx where
    s: "code (snd (createNewCoupon example_env ''u1'' example_world)) = ''GIFT'' @ sfx"
    "length sfx = min 6 (length (Math_random_digits example_env))"
    "expirationDate (snd (createNewCoupon example_env ''u1'' example_world)) =
       Date_now example_env + 30 * (24 * 60 * 60 * 1000)"
    using createNewCoupon_mints_gift_coupon [of example_env "''u1''" example_world] by blast
  have "code (snd (createNewCoupon example_env ''u1'' example_world)) = ''GIFTA3Z0I7''"
    by code_simp
  with s show ?thesis by (simp add: example_env_def)
qed

text \<open>
  Counterexample to C9 as stated: when \<open>Math.random()\<close> returns 0.5, its
  base-36 text is \<open>"0.i"\<close>, \<open>substring(2, 8)\<close> is
  \<open>"i"\<close>, and the code is \<open>GIFTI\<close>: one character after
  \<open>GIFT\<close>, not six.
\<close>

theorem createNewCoupon_short_code_counterexample:
  "code (snd (createNewCoupon (example_env\<lparr>Math_random_digits := [18]\<rparr>) ''u1'' example_world)) =
     ''GIFTI'' \<and>
   length (code (snd (createNewCoupon (example_env\<lparr>Math_random_digits := [18]\<rparr>) ''u1''
     example_world))) \<noteq> 4 + 6"
  by code_simp

text \<open>
  Claim C5. Take a ledger with at most one coupon for each user, whose ids are below the
  id counter. The reward check with total \<open>t\<close> adds a coupon that was not in
  the ledger exactly when \<open>20000 \<le> t\<close>; when it does, the user's coupons
  afterwards are the new one alone, and no coupon that the user owned before is left.
  The ledger still has at most one coupon for each user after the reward check, after
  \<open>createCheckoutSession\<close> and after \<open>checkoutSuccess\<close>. On its
  200 path, \<open>createCheckoutSession\<close> ends with the reward check of the total
  it computed.
\<close>

theorem rewardCheck_threshold_one_per_user:
  assumes inv: "distinct (map userId (coupons w))"
    and fresh: "\<forall>c\<in>set (coupons w). c__id c < next_id w"
  shows "((\<exists>c\<in>set (coupons (rewardCheck e t u w)). c \<notin> set (coupons w)) \<longleftrightarrow> 20000 \<le> t) \<and>
    (20000 \<le> t \<longrightarrow>
       filter (\<lambda>c. userId c = u) (coupons (rewardCheck e t u w)) =
         [snd (createNewCoupon e u w)]) \<and>
    (20000 \<le> t \<longrightarrow>
       (\<forall>c\<in>set (coupons w). userId c = u \<longrightarrow> c \<notin> set (coupons (rewardCheck e t u w)))) \<and>
    distinct (map userId (coupons (rewardCheck e t u w))) \<and>
    distinct (map userId (coupons (fst (createCheckoutSession e req w)))) \<and>
    distinct (map userId (coupons (fst (checkoutSuccess e sid w)))) \<and>
    (\<forall>ps w1 dl sid'.
       body_products req = ProductArray ps \<and> ps \<noteq> [] \<and>
       discountsFor e (requestCoupon req w) w = (w1, Inr dl) \<and>
       stripe_sessions_create e (sessionParams e req ps dl) = Inr sid' \<longrightarrow>
       fst (createCheckoutSession e req w) =
         rewardCheck e (applyDiscount 0 (requestCoupon req w)) (user__id req)
           (w1\<lparr>stripe_calls := stripe_calls w1 @ [SessionsCreate (sessionParams e req ps dl)]\<rparr>))"
proof -
  let ?new = "snd (createNewCoupon e u w)"
  let ?rest = "deleteFirst (\<lambda>c. userId c = u) (coupons w)"
  have new_id: "c__id ?new = next_id w" and new_owner: "userId ?new = u"
    by (simp_all add: createNewCoupon_fields)
  have new_fresh: "?new \<notin> set (coupons w)"
    using fresh new_id by auto
  have rest_sub: "set ?rest \<subseteq> set (coupons w)"
    by (rule deleteFirst_subset)
  have rest_gone: "\<forall>c\<in>set ?rest. userId c \<noteq> u"
    using deleteFirst_owner_gone [OF inv] .
  have rest_dist: "distinct (map userId ?rest)"
    using distinct_map_deleteFirst [OF inv] .
  have 1: "(\<exists>c\<in>set (coupons (rewardCheck e t u w)). c \<notin> set (coupons w)) \<longleftrightarrow> 20000 \<le> t"
    using new_fresh by (auto simp: rewardCheck_coupons)
  have filt: "filter (\<lambda>c. userId c = u) ?rest = []"
    using rest_gone by (simp add: filter_empty_conv)
  have 2: "20000 \<le> t \<longrightarrow>
       filter (\<lambda>c. userId c = u) (coupons (rewardCheck e t u w)) = [?new]"
    using filt new_owner by (simp add: rewardCheck_coupons)
  have 3: "20000 \<le> t \<longrightarrow>
       (\<forall>c\<in>set (coupons w). userId c = u \<longrightarrow> c \<notin> set (coupons (rewardCheck e t u w)))"
    using rest_gone new_fresh by (auto simp: rewardCheck_coupons)
  have 4: "distinct (map userId (coupons (rewardCheck e t u w)))"
    using inv rest_dist rest_gone new_owner by (auto simp: rewardCheck_coupons)
  have 5: "distinct (map userId (coupons (fst (createCheckoutSession e req w))))"
    using inv createCheckoutSession_store [of e req w] by simp
  have 6: "distinct (map userId (coupons (fst (checkoutSuccess e sid w))))"
    using inv by (simp add: checkoutSuccess_owners)
  have 7: "\<forall>ps w1 dl sid'.
       body_products req = ProductArray ps \<and> ps \<noteq> [] \<and>
       discountsFor e (requestCoupon req w) w = (w1, Inr dl) \<and>
       stripe_sessions_create e (sessionParams e req ps dl) = Inr sid' \<longrightarrow>
       fst (createCheckoutSession e req w) =
         rewardCheck e (applyDiscount 0 (requestCoupon req w)) (user__id req)
           (w1\<lparr>stripe_calls := stripe_calls w1 @ [SessionsCreate (sessionParams e req ps dl)]\<rparr>)"
    by (simp add: createCheckoutSession_def Let_def)
  from 1 2 3 4 5 6 7 show ?thesis by blast
qed

text \<open>Witness for C5: on the example ledger a total of 25000 replaces the buyer's
  coupon by a new one, and a total of 19999 leaves the ledger as it was.\<close>

theorem rewardCheck_threshold_one_per_user_witness:
  "distinct (map userId (coupons example_world)) \<and>
   map c__id (coupons example_world) = [0] \<and> next_id example_world = 1 \<and>
   (20000::int) \<le> 25000 \<and>
   filter (\<lambda>c. userId c = ''u1'') (coupons (rewardCheck example_env 25000 ''u1'' example_world)) =
     [snd (createNewCoupon example_env ''u1'' example_world)] \<and>
   example_coupon \<notin> set (coupons (rewardCheck example_env 25000 ''u1'' example_world)) \<and>
   coupons (rewardCheck example_env 19999 ''u1'' example_world) = [example_coupon] \<and>
   distinct (map userId (coupons (rewardCheck example_env 25000 ''u1'' example_world)))"
proof -
  have inv: "distinct (map userId (coupons example_world))"
    by (simp add: example_world_def)
  have ids: "map c__id (coupons example_world) = [0]" "next_id example_world = 1"
    by (simp_all add: example_world_def example_coupon_def)
  have fresh: "\<forall>c\<in>set (coupons example_world). c__id c < next_id example_world"
    by (simp add: example_world_def example_coupon_def)
  have own: "example_coupon \<in> set (coupons example_world)" "userId example_coupon = ''u1''"
    by (simp_all add: example_world_def example_coupon_def)
  note c = rewardCheck_threshold_one_per_user
    [OF inv fresh, of example_env 25000 "''u1''" example_request "''cs_1''"]
  have low: "coupons (rewardCheck example_env 19999 ''u1'' example_world) = [example_coupon]"
    by (simp add: rewardCheck_def example_world_def)
  from c own
  have "example_coupon \<notin> set (coupons (rewardCheck example_env 25000 ''u1'' example_world))"
    by simp
  with c inv ids low show ?thesis by simp
qed

subsection \<open>Claims about checkoutSuccess\<close>

text \<open>
  Claim C8. When the gateway's session is not \<open>paid\<close>,
  \<open>checkoutSuccess\<close> sends no response, and the orders, the coupons and the
  id counter are as they were; the only effect is the retrieve call on the gateway.
\<close>

theorem checkoutSuccess_unpaid_noop:
  assumes "stripe_sessions_retrieve e sid = Inr s"
    and "payment_status s \<noteq> ''paid''"
  shows "snd (checkoutSuccess e sid w) = None \<and>
         orders (fst (checkoutSuccess e sid w)) = orders w \<and>
         coupons (fst (checkoutSuccess e sid w)) = coupons w \<and>
         next_id (fst (checkoutSuccess e sid w)) = next_id w \<and>
         stripe_calls (fst (checkoutSuccess e sid w)) = stripe_calls w @ [SessionsRetrieve sid]"
  using assms by (simp add: checkoutSuccess_def Let_def)

text \<open>Witness for C8: the unpaid session \<open>cs_2\<close> of the example.\<close>

theorem checkoutSuccess_unpaid_noop_witness:
  "stripe_sessions_retrieve example_env ''cs_2'' =
     Inr (example_session\<lparr>payment_status := ''unpaid''\<rparr>) \<and>
   payment_status (example_session\<lparr>payment_status := ''unpaid''\<rparr>) \<noteq> ''paid'' \<and>
   snd (checkoutSuccess example_env ''cs_2'' example_world) = None \<and>
   orders (fst (checkoutSuccess example_env ''cs_2'' example_world)) = orders example_world \<and>
   coupons (fst (checkoutSuccess example_env ''cs_2'' example_world)) = coupons example_world"
proof -
  have r: "stripe_sessions_retrieve example_env ''cs_2'' =
     Inr (example_session\<lparr>payment_status := ''unpaid''\<rparr>)"
    by (simp add: example_env_def)
  have p: "payment_status (example_session\<lparr>payment_status := ''unpaid''\<rparr>) \<noteq> ''paid''"
    by simp
  from checkoutSuccess_unpaid_noop [OF r p, of example_world] r p show ?thesis by simp
qed

text \<open>
  Claim C1. For a paid session \<open>s\<close> whose metadata has the non-empty coupon
  code \<open>X\<close>, the user \<open>u\<close> and the JSON text of a snapshot,
  \<open>checkoutSuccess\<close> answers 200 with \<open>success: true\<close> and the
  id of a new order. That order is appended to the orders, its user is \<open>u\<close>,
  its line items are the snapshot's (id, quantity, price) in order, its
  \<open>totalAmount\<close> is \<open>amount_total / 100\<close> and its
  \<open>stripeSessionId\<close> is \<open>s\<close>. The first coupon matching
  \<open>{code: X, userId: u}\<close>, if there is one, is the same coupon with
  \<open>isActive = false\<close> afterwards; the coupons that do not match are
  unchanged and no coupon is added or removed.
\<close>

theorem checkoutSuccess_paid_creates_order:
  assumes "stripe_sessions_retrieve e s = Inr sess"
    and "payment_status sess = ''paid''"
    and "m_couponCode (session_metadata sess) = X" and "X \<noteq> []"
    and "m_userId (session_metadata sess) = u"
    and "JSON_parse (m_products (session_metadata sess)) = Inr snap"
  shows "\<exists>w' ord.
     checkoutSuccess e s w =
       (w', Some \<lparr>status = 200,
                  json = SuccessBody True
                    ''Payment successful, order created, and coupon deactivated if used.''
                    (o__id ord)\<rparr>) \<and>
     orders w' = orders w @ [ord] \<and>
     o__id ord = next_id w \<and>
     o_user ord = u \<and>
     o_products ord =
       map (\<lambda>p. \<lparr>oi_product = s_id p, oi_quantity = s_quantity p, oi_price = s_price p\<rparr>) snap \<and>
     o_totalAmount ord = of_int (amount_total sess) / 100 \<and>
     stripeSessionId ord = s \<and>
     (\<forall>c. find (\<lambda>c. code c = X \<and> userId c = u) (coupons w) = Some c \<longrightarrow>
          find (\<lambda>c. code c = X \<and> userId c = u) (coupons w') = Some (c\<lparr>isActive := False\<rparr>)) \<and>
     filter (\<lambda>c. \<not> (code c = X \<and> userId c = u)) (coupons w') =
       filter (\<lambda>c. \<not> (code c = X \<and> userId c = u)) (coupons w) \<and>
     length (coupons w') = length (coupons w)"
proof -
  let ?P = "\<lambda>c. code c = X \<and> userId c = u"
  let ?f = "\<lambda>c::coupon. c\<lparr>isActive := False\<rparr>"
  let ?w1 = "w\<lparr>stripe_calls := stripe_calls w @ [SessionsRetrieve s]\<rparr>"
  let ?w2 = "Coupon_findOneAndUpdate X u ?w1"
  let ?ord = "newOrder s sess snap ?w2"
  let ?w3 = "Order_save ?ord (?w2\<lparr>next_id := Suc (next_id ?w2)\<rparr>)"
  have cs: "coupons ?w3 = updateFirst ?P ?f (coupons w)"
    by (simp add: Order_save_def Coupon_findOneAndUpdate_def)
  have nid: "next_id ?w2 = next_id w"
    by (simp add: Coupon_findOneAndUpdate_def)
  have run: "checkoutSuccess e s w =
       (?w3, Some \<lparr>status = 200,
                  json = SuccessBody True
                    ''Payment successful, order created, and coupon deactivated if used.''
                    (o__id ?ord)\<rparr>)"
    using assms by (simp add: checkoutSuccess_paid Let_def newOrder_def)
  have ords: "orders ?w3 = orders w @ [?ord]"
    by (simp add: Order_save_def Coupon_findOneAndUpdate_def)
  have fields: "o__id ?ord = next_id w" "o_user ?ord = u"
    "o_products ?ord =
       map (\<lambda>p. \<lparr>oi_product = s_id p, oi_quantity = s_quantity p, oi_price = s_price p\<rparr>) snap"
    "o_totalAmount ?ord = of_int (amount_total sess) / 100" "stripeSessionId ?ord = s"
    using assms(5) by (simp_all add: newOrder_def nid)
  have deact: "\<forall>c. find ?P (coupons w) = Some c \<longrightarrow>
          find ?P (coupons ?w3) = Some (c\<lparr>isActive := False\<rparr>)"
  proof (intro allI impI)
    fix c assume f: "find ?P (coupons w) = Some c"
    then have "?P c" by (auto simp: find_Some_iff)
    then have "?P (?f c)" by simp
    from find_updateFirst [of ?P "coupons w" c ?f, OF f this] show
      "find ?P (coupons ?w3) = Some (c\<lparr>isActive := False\<rparr>)" by (simp only: cs)
  qed
  have rest: "filter (\<lambda>c. \<not> ?P c) (coupons ?w3) = filter (\<lambda>c. \<not> ?P c) (coupons w)"
    unfolding cs by (rule filter_updateFirst) simp
  have len: "length (coupons ?w3) = length (coupons w)"
    unfolding cs by (rule length_updateFirst)
  from run ords fields deact rest len show ?thesis by blast
qed

text \<open>Witness for C1: the paid session \<open>cs_1\<close> of the example, with
  \<open>amount_total = 10000\<close>, gives an order of 100.00 and deactivates the coupon.\<close>

theorem checkoutSuccess_paid_creates_order_witness:
  "stripe_sessions_retrieve example_env ''cs_1'' = Inr example_session \<and>
   payment_status example_session = ''paid'' \<and>
   m_couponCode (session_metadata example_session) = ''GIFTABC123'' \<and>
   m_userId (session_metadata example_session) = ''u1'' \<and>
   orders (fst (checkoutSuccess example_env ''cs_1'' example_world)) =
     [\<lparr>o__id = 1, o_user = ''u1'',
       o_products = [\<lparr>oi_product = Some ''p1'', oi_quantity = Some 2, oi_price = Some 50\<rparr>],
       o_totalAmount = 100, stripeSessionId = ''cs_1''\<rparr>] \<and>
   find (\<lambda>c. code c = ''GIFTABC123'' \<and> userId c = ''u1'')
     (coupons (fst (checkoutSuccess example_env ''cs_1'' example_world))) =
     Some (example_coupon\<lparr>isActive := False\<rparr>)"
proof -
  have h1: "stripe_sessions_retrieve example_env ''cs_1'' = Inr example_session"
    by (simp add: example_env_def)
  have h2: "payment_status example_session = ''paid''"
    by (simp add: example_session_def)
  have h3: "m_couponCode (session_metadata example_session) = ''GIFTABC123''"
    by (simp add: example_session_def example_metadata_def)
  have h4: "''GIFTABC123'' \<noteq> []" by simp
  have h5: "m_userId (session_metadata example_session) = ''u1''"
    by (simp add: example_session_def example_metadata_def)
  have h6: "JSON_parse (m_products (session_metadata example_session)) =
              Inr [\<lparr>s_id = Some ''p1'', s_quantity = Some 2, s_price = Some 50\<rparr>]"
    by (simp add: example_session_def example_metadata_def JSON_parse_def)
  obtain w' ord where
    run: "fst (checkoutSuccess example_env ''cs_1'' example_world) = w'"
    and ords: "orders w' = orders example_world @ [ord]"
    and f: "o__id ord = next_id example_world" "o_user ord = ''u1''"
      "o_products ord =
         [\<lparr>oi_product = Some ''p1'', oi_quantity = Some 2, oi_price = Some 50\<rparr>]"
      "o_totalAmount ord = of_int (amount_total example_session) / 100"
      "stripeSessionId ord = ''cs_1''"
    and d: "\<forall>c. find (\<lambda>c. code c = ''GIFTABC123'' \<and> userId c = ''u1'')
                  (coupons example_world) = Some c \<longrightarrow>
              find (\<lambda>c. code c = ''GIFTABC123'' \<and> userId c = ''u1'') (coupons w') =
                Some (c\<lparr>isActive := False\<rparr>)"
    using checkoutSuccess_paid_creates_order [OF h1 h2 h3 h4 h5 h6, of example_world] by auto
  have "ord = \<lparr>o__id = 1, o_user = ''u1'',
       o_products = [\<lparr>oi_product = Some ''p1'', oi_quantity = Some 2, oi_price = Some 50\<rparr>],
       o_totalAmount = 100, stripeSessionId = ''cs_1''\<rparr>"
    using f by (cases ord) (simp add: example_world_def example_session_def)
  moreover have "find (\<lambda>c. code c = ''GIFTABC123'' \<and> userId c = ''u1'')
                  (coupons example_world) = Some example_coupon"
    by (simp add: example_world_def example_coupon_def)
  ultimately show ?thesis
    using h1 h2 h3 h5 run ords d by (simp add: example_world_def)
qed

text \<open>
  Claim C2. For a paid session \<open>s\<close> whose metadata holds the JSON text of a
  snapshot, running \<open>checkoutSuccess\<close> twice answers 200 both times and
  appends two orders with different ids and the same \<open>stripeSessionId = s\<close>.
\<close>

theorem checkoutSuccess_twice_duplicates_order:
  assumes "stripe_sessions_retrieve e s = Inr sess"
    and "payment_status sess = ''paid''"
    and "JSON_parse (m_products (session_metadata sess)) = Inr snap"
  shows "\<exists>o1 o2 r1 r2.
     orders (fst (checkoutSuccess e s (fst (checkoutSuccess e s w)))) = orders w @ [o1, o2] \<and>
     stripeSessionId o1 = s \<and> stripeSessionId o2 = s \<and>
     o__id o1 \<noteq> o__id o2 \<and>
     snd (checkoutSuccess e s w) = Some r1 \<and> status r1 = 200 \<and>
     snd (checkoutSuccess e s (fst (checkoutSuccess e s w))) = Some r2 \<and> status r2 = 200"
proof -
  let ?w1 = "fst (checkoutSuccess e s w)"
  let ?o1 = "newOrder s sess snap w"
  let ?o2 = "newOrder s sess snap ?w1"
  have "orders (fst (checkoutSuccess e s ?w1)) = orders w @ [?o1, ?o2]"
    by (simp add: checkoutSuccess_paid_effect(1) [OF assms])
  moreover have "stripeSessionId ?o1 = s" "stripeSessionId ?o2 = s"
    by (simp_all add: newOrder_def)
  moreover have "o__id ?o1 \<noteq> o__id ?o2"
    by (simp add: newOrder_def checkoutSuccess_paid_effect(2) [OF assms])
  moreover have "\<exists>r1. snd (checkoutSuccess e s w) = Some r1 \<and> status r1 = 200"
    by (simp add: checkoutSuccess_paid_effect(3) [OF assms])
  moreover have "\<exists>r2. snd (checkoutSuccess e s ?w1) = Some r2 \<and> status r2 = 200"
    by (simp add: checkoutSuccess_paid_effect(3) [OF assms])
  ultimately show ?thesis by blast
qed

text \<open>Witness for C2: reconciling the example session \<open>cs_1\<close> twice leaves the
  orders 1 and 2, both for \<open>cs_1\<close>.\<close>

theorem checkoutSuccess_twice_duplicates_order_witness:
  "stripe_sessions_retrieve example_env ''cs_1'' = Inr example_session \<and>
   payment_status example_session = ''paid'' \<and>
   map (\<lambda>ord. (o__id ord, stripeSessionId ord))
     (orders (fst (checkoutSuccess example_env ''cs_1''
        (fst (checkoutSuccess example_env ''cs_1'' example_world))))) =
     [(1, ''cs_1''), (2, ''cs_1'')]"
proof -
  have h1: "stripe_sessions_retrieve example_env ''cs_1'' = Inr example_session"
    by (simp add: example_env_def)
  have h2: "payment_status example_session = ''paid''"
    by (simp add: example_session_def)
  have h3: "JSON_parse (m_products (session_metadata example_session)) =
              Inr [\<lparr>s_id = Some ''p1'', s_quantity = Some 2, s_price = Some 50\<rparr>]"
    by (simp add: example_session_def example_metadata_def JSON_parse_def)
  obtain o1 o2 where
    o: "orders (fst (checkoutSuccess example_env ''cs_1''
          (fst (checkoutSuccess example_env ''cs_1'' example_world)))) =
        orders example_world @ [o1, o2]"
      "stripeSessionId o1 = ''cs_1''" "stripeSessionId o2 = ''cs_1''"
    using checkoutSuccess_twice_duplicates_order [OF h1 h2 h3, of example_world] by blast
  have ev: "map o__id (orders (fst (checkoutSuccess example_env ''cs_1''
          (fst (checkoutSuccess example_env ''cs_1'' example_world))))) = [1, 2]"
    by (simp add: checkoutSuccess_paid_effect [OF h1 h2 h3] newOrder_def example_world_def)
  from o ev h1 h2 show ?thesis by (simp add: example_world_def)
qed

end
